theory Spec2Isabelle
  imports Main
begin

section \<open>The local oscap scanner (OscapScannerLocal.cpp)\<close>

text \<open>
  A shallow embedding of \<^verbatim>\<open>OscapScannerLocal\<close>. The scanner object is a record; every
  signal it emits and every action it performs on a process or on a file is appended, in
  program order, to the field \<open>emitted\<close>. Everything the code only observes (what the probe
  returns, whether the process started, what each wait reports, when the user cancels, the
  exit code, the bytes of a file) is a field of the record \<open>env\<close>.
\<close>

subsection \<open>Data\<close>

text \<open>
  The scanner modes. The enum is declared in a header; the source names two of its
  values, and \<open>SM_SCAN\<close> stands for a mode that is neither.
\<close>

datatype ScannerMode = SM_SCAN | SM_SCAN_ONLINE_REMEDIATION | SM_OFFLINE_REMEDIATION

datatype event =
    InfoMessage string
  | ErrorMessage string
  | Completion bool
  | SyncRun string "string list"
  | FileWrite string string
  | FileCreate string
  | FileOpenFailed string
  | FileRead string
  | ProcStart string "string list" string
  | ProcKill
  | ReadStdOut
  | WatchStdErr
  | ProcessEvents

text \<open>
  \<open>Completion c\<close> is \<^verbatim>\<open>signalCompletion(c)\<close>; \<open>SyncRun p a\<close> is a \<^verbatim>\<open>SyncProcess\<close> run to
  its end; \<open>FileWrite f b\<close> is a temporary file opened, written with \<open>b\<close> and closed;
  \<open>FileCreate f\<close> is \<^verbatim>\<open>QFile(f).open(WriteOnly); close()\<close> with the open succeeding,
  which leaves \<open>f\<close> existing with length zero; \<open>FileOpenFailed f\<close> is the same two calls
  with the open failing, which leaves the files as they were (the code does not look at
  the result of the open); \<open>FileRead f\<close> is open, \<^verbatim>\<open>readAll\<close>, close; \<open>ProcStart p a d\<close> is
  \<^verbatim>\<open>QProcess::start(p, a)\<close> with working directory \<open>d\<close>; \<open>ProcKill\<close> is
  \<^verbatim>\<open>QProcess::kill\<close>; the last three are calls of the base class's \<^verbatim>\<open>readStdOut\<close>,
  \<^verbatim>\<open>watchStdErr\<close> and of the event dispatcher. The bodies of \<^verbatim>\<open>readStdOut\<close> and
  \<^verbatim>\<open>watchStdErr\<close> are not in this file: the record shows that they were called, not
  what they do. \<^verbatim>\<open>QObject::tr\<close> is taken to return its argument.
\<close>

record ScanningSession =
  getOpenedFilePath :: string
  hasTailoring :: bool
  getTailoringFilePath :: string
  getUserTailoringFilePath :: string
  getProfile :: string

record LocalOscapSession =
  mArfFile :: string
  mReportFile :: string
  mResultFile :: string

record scanner =
  mDryRun :: bool
  mCancelRequested :: bool
  mScannerMode :: ScannerMode
  mSession :: ScanningSession
  mLocalSession :: LocalOscapSession
  mCapabilities :: string
  getARFForRemediation :: string
  mResults :: string
  mReport :: string
  mARF :: string
  emitted :: "event list"

text \<open>
  The three fields of \<open>LocalOscapSession\<close> are the names of its temporary files.
  \<open>mCapabilities\<close> holds the text handed to the capability parser, which is not part of
  this file.
\<close>

text \<open>The macros of the build configuration.\<close>

record build_config =
  SCAP_WORKBENCH_LOCAL_OSCAP_PATH :: string
  SCAP_WORKBENCH_LOCAL_PKEXEC_OSCAP_PATH :: string
  SCAP_WORKBENCH_LOCAL_NICE_FOUND :: bool
  SCAP_WORKBENCH_LOCAL_NICE_PATH :: string
  SCAP_WORKBENCH_LOCAL_OSCAP_NICENESS :: int

text \<open>
  The two argument builders of the base class, taken as parameters. The last argument of
  each is \<^verbatim>\<open>ignoreCapabilities\<close>, which defaults to false.
\<close>

record arg_builder =
  buildEvaluationArgs ::
    "string \<Rightarrow> string \<Rightarrow> string \<Rightarrow> string \<Rightarrow> string \<Rightarrow> bool \<Rightarrow> bool \<Rightarrow> string list"
  buildOfflineRemediationArgs ::
    "string \<Rightarrow> string \<Rightarrow> string \<Rightarrow> string \<Rightarrow> bool \<Rightarrow> string list"

text \<open>
  What one invocation observes of the outside world. \<open>waitForFinished i\<close> is the answer
  of the \<open>i\<close>-th call of \<^verbatim>\<open>QProcess::waitForFinished\<close> (counted from 0); the poll interval
  only bounds how long that call blocks, and time is not modelled. \<open>cancelDelivered i\<close>
  says whether pumping the event queue in the \<open>i\<close>-th round of the poll loop delivers a
  cancel request. \<open>checkPrerequisites\<close> is the verdict of the base class's method of that
  name, \<open>inputARFFileName\<close> and \<open>workingDirPath\<close> are the names the temporary file and
  directory get, \<open>readAll f\<close> is what \<^verbatim>\<open>readAll\<close> returns for the file \<open>f\<close>,
  \<open>roleFileOpens\<close> is whether opening the role file for writing succeeds.
\<close>

record env =
  environ :: "string \<rightharpoonup> string"
  probeExitCode :: int
  probeDiagnosticInfo :: string
  probeStdOutContents :: string
  checkPrerequisites :: bool
  inputARFFileName :: string
  workingDirPath :: string
  processRunning :: bool
  waitForFinished :: "nat \<Rightarrow> bool"
  cancelDelivered :: "nat \<Rightarrow> bool"
  exitCode :: int
  readAll :: "string \<Rightarrow> string"
  roleFileOpens :: bool

subsection \<open>Library functions the code calls\<close>

definition emit :: "event \<Rightarrow> scanner \<Rightarrow> scanner" where
  "emit e s = s\<lparr>emitted := emitted s @ [e]\<rparr>"

text \<open>
  Modelled from the spec: \<^verbatim>\<open>signalCompletion\<close> belongs to the base class. It signals
  completion to the collaborators, carrying the flag it is given.
\<close>

definition signalCompletion :: "bool \<Rightarrow> scanner \<Rightarrow> scanner" where
  "signalCompletion canceled s = emit (Completion canceled) s"

text \<open>\<^verbatim>\<open>qgetenv\<close>: the value of the variable, empty when there is none.\<close>

definition qgetenv :: "(string \<rightharpoonup> string) \<Rightarrow> string \<Rightarrow> string" where
  "qgetenv e name = (case e name of None \<Rightarrow> [] | Some v \<Rightarrow> v)"

text \<open>\<^verbatim>\<open>QString::number\<close> of an integer: decimal digits, with a sign when negative.\<close>

fun digits :: "nat \<Rightarrow> string" where
  "digits n = (if n < 10 then [''0123456789'' ! n]
               else digits (n div 10) @ [''0123456789'' ! (n mod 10)])"

definition number :: "int \<Rightarrow> string" where
  "number i = (if i < 0 then CHR ''-'' # digits (nat (- i)) else digits (nat i))"

text \<open>
  \<^verbatim>\<open>std::runtime_error(message.toUtf8().constData())\<close> keeps the bytes before the first
  zero byte.
\<close>

definition what :: "string \<Rightarrow> string" where
  "what message = takeWhile (\<lambda>c. c \<noteq> CHR 0x00) message"

text \<open>\<^verbatim>\<open>QStringList::removeOne\<close> removes the first occurrence.\<close>

definition removeOne :: "string \<Rightarrow> string list \<Rightarrow> string list" where
  "removeOne x xs = remove1 x xs"

subsection \<open>Program resolution\<close>

definition getPkexecOscapPath :: "build_config \<Rightarrow> (string \<rightharpoonup> string) \<Rightarrow> string" where
  "getPkexecOscapPath cfg e =
     (let path = qgetenv e ''SCAP_WORKBENCH_PKEXEC_OSCAP_PATH'' in
      if path = [] then SCAP_WORKBENCH_LOCAL_PKEXEC_OSCAP_PATH cfg else path)"

text \<open>The result is the returned program and the argument list as the call leaves it.\<close>

definition getOscapProgram ::
  "build_config \<Rightarrow> (string \<rightharpoonup> string) \<Rightarrow> string list \<Rightarrow> string \<times> string list" where
  "getOscapProgram cfg e args =
     (if SCAP_WORKBENCH_LOCAL_NICE_FOUND cfg then
        (let args1 = getPkexecOscapPath cfg e # args;
             args2 = number (SCAP_WORKBENCH_LOCAL_OSCAP_NICENESS cfg) # args1;
             args3 = ''-n'' # args2
         in (SCAP_WORKBENCH_LOCAL_NICE_PATH cfg, args3))
      else (getPkexecOscapPath cfg e, args))"

subsection \<open>The capability probe\<close>

text \<open>
  The result is \<open>Inl (w, s')\<close> when the function throws \<^verbatim>\<open>std::runtime_error\<close> with text
  \<open>w\<close>, leaving the object as \<open>s'\<close>, and \<open>Inr s'\<close> when it returns.
\<close>

definition fillInCapabilities ::
  "build_config \<Rightarrow> env \<Rightarrow> scanner \<Rightarrow> (string \<times> scanner) + scanner" where
  "fillInCapabilities cfg ev s =
     (let s1 = emit (SyncRun (SCAP_WORKBENCH_LOCAL_OSCAP_PATH cfg) [''-V'']) s in
      if probeExitCode ev \<noteq> 0 then
        (let message = ''Failed to query capabilities of oscap on local machine.''
               @ [CHR 0x0A] @ ''Diagnostic info:'' @ [CHR 0x0A] @ probeDiagnosticInfo ev;
             s2 = s1\<lparr>mCancelRequested := True\<rparr>;
             s3 = signalCompletion (mCancelRequested s2) s2
         in Inl (what message, s3))
      else Inr (s1\<lparr>mCapabilities := probeStdOutContents ev\<rparr>))"

subsection \<open>evaluate\<close>

text \<open>
  The argument vector of a run (lines 119 to 141), as a function of the paths of the
  three output files and of \<^verbatim>\<open>ignoreCapabilities\<close>.
\<close>

definition evaluate_args ::
  "arg_builder \<Rightarrow> env \<Rightarrow> scanner \<Rightarrow> string \<Rightarrow> string \<Rightarrow> string \<Rightarrow> bool \<Rightarrow> string list" where
  "evaluate_args bld ev s resultFile reportFile arfFile ignoreCapabilities =
     (if mScannerMode s = SM_OFFLINE_REMEDIATION then
        buildOfflineRemediationArgs bld (inputARFFileName ev)
          resultFile reportFile arfFile ignoreCapabilities
      else
        buildEvaluationArgs bld (getOpenedFilePath (mSession s))
          (if hasTailoring (mSession s) then getTailoringFilePath (mSession s) else [])
          resultFile reportFile arfFile
          (mScannerMode s = SM_SCAN_ONLINE_REMEDIATION) ignoreCapabilities)"

text \<open>Lines 109 to 155: from the start notice to the notice before the poll loop.\<close>

definition evaluate_launch :: "build_config \<Rightarrow> arg_builder \<Rightarrow> env \<Rightarrow> scanner \<Rightarrow> scanner" where
  "evaluate_launch cfg bld ev s =
     (let s1 = emit (InfoMessage ''Starting the oscap process...'') s;
          s2 = (if mScannerMode s1 = SM_OFFLINE_REMEDIATION
                then emit (FileWrite (inputARFFileName ev) (getARFForRemediation s1)) s1
                else s1);
          args = evaluate_args bld ev s2
                   (mResultFile (mLocalSession s2)) (mReportFile (mLocalSession s2))
                   (mArfFile (mLocalSession s2)) False;
          (program, args') = getOscapProgram cfg (environ ev) args;
          s3 = emit (ProcStart program args' (workingDirPath ev)) s2;
          s4 = (if \<not> processRunning ev
                then (emit (ErrorMessage (''Failed to start local scanning process '' @ [CHR 0x27]
                         @ program @ [CHR 0x27] @ ''. Perhaps the executable was not found?'')) s3)
                       \<lparr>mCancelRequested := True\<rparr>
                else s3)
      in emit (InfoMessage ''Processing...'') s4)"

text \<open>Lines 158 to 170: one round of the poll loop, the \<open>i\<close>-th.\<close>

definition pollBody :: "env \<Rightarrow> nat \<Rightarrow> scanner \<Rightarrow> scanner" where
  "pollBody ev i s =
     (let s1 = emit ReadStdOut s;
          s2 = emit WatchStdErr s1;
          s3 = emit ProcessEvents s2;
          s4 = (if cancelDelivered ev i then s3\<lparr>mCancelRequested := True\<rparr> else s3)
      in if mCancelRequested s4
         then emit ProcKill
                (emit (InfoMessage ''Cancellation was requested! Terminating scanning...'') s4)
         else s4)"

text \<open>
  Lines 156 to 171. The loop ends when a wait reports that the process has finished; it
  has no value when no wait ever does.
\<close>

partial_function (option) pollLoop :: "env \<Rightarrow> nat \<Rightarrow> scanner \<Rightarrow> scanner option" where
  "pollLoop ev i s =
     (if waitForFinished ev i then Some s else pollLoop ev (Suc i) (pollBody ev i s))"

text \<open>Lines 173 to 211: what follows the loop.\<close>

definition evaluate_finish :: "env \<Rightarrow> scanner \<Rightarrow> scanner" where
  "evaluate_finish ev s =
     (let s' =
        (if \<not> mCancelRequested s then
           (if exitCode ev = 1 then
              (let s1 = emit WatchStdErr s;
                   s2 = emit (ErrorMessage (''There was an error during evaluation! ''
                          @ ''Exit code of the 'oscap' process was 1.'')) s1
               in s2\<lparr>mCancelRequested := True\<rparr>)
            else
              (let s1 = emit ReadStdOut s;
                   s2 = emit WatchStdErr s1;
                   s3 = emit (InfoMessage ''The oscap tool has finished. Reading results...'') s2;
                   s4 = (emit (FileRead (mResultFile (mLocalSession s3))) s3)
                          \<lparr>mResults := readAll ev (mResultFile (mLocalSession s3))\<rparr>;
                   s5 = (emit (FileRead (mReportFile (mLocalSession s4))) s4)
                          \<lparr>mReport := readAll ev (mReportFile (mLocalSession s4))\<rparr>;
                   s6 = (emit (FileRead (mArfFile (mLocalSession s5))) s5)
                          \<lparr>mARF := readAll ev (mArfFile (mLocalSession s5))\<rparr>
               in emit (InfoMessage ''Processing has been finished!'') s6))
         else emit (InfoMessage ''Scanning cancelled!'') s)
      in signalCompletion (mCancelRequested s') s')"

text \<open>
  The whole of \<^verbatim>\<open>evaluate\<close>. The result is \<open>None\<close> when the call never returns, which
  can only come from the poll loop.
\<close>

definition evaluate :: "build_config \<Rightarrow> arg_builder \<Rightarrow> env \<Rightarrow> scanner \<Rightarrow> scanner option" where
  "evaluate cfg bld ev s =
     (if mDryRun s then Some (signalCompletion (mCancelRequested s) s)
      else
        (let s1 = emit (InfoMessage ''Querying capabilities...'') s in
         case fillInCapabilities cfg ev s1 of
           Inl (w, s2) \<Rightarrow> Some (emit (ErrorMessage w) s2)
         | Inr s2 \<Rightarrow>
             if \<not> checkPrerequisites ev then
               (let s3 = s2\<lparr>mCancelRequested := True\<rparr>
                in Some (signalCompletion (mCancelRequested s3) s3))
             else map_option (evaluate_finish ev)
                    (pollLoop ev 0 (evaluate_launch cfg bld ev s2))))"

subsection \<open>The command line shown for a dry run\<close>

text \<open>
  The method is \<^verbatim>\<open>const\<close>: the result is the argument list together with what it does
  to the file system (the temporary input file of offline remediation).
\<close>

definition getCommandLineArgs :: "arg_builder \<Rightarrow> env \<Rightarrow> scanner \<Rightarrow> string list \<times> event list" where
  "getCommandLineArgs bld ev s =
     (let args0 = [''oscap''];
          (args1, evs) =
            (if mScannerMode s = SM_OFFLINE_REMEDIATION then
               (args0 @ buildOfflineRemediationArgs bld (inputARFFileName ev)
                          ''/tmp/xccdf-results.xml'' ''/tmp/report.html'' ''/tmp/arf.xml'' True,
                [FileWrite (inputARFFileName ev) (getARFForRemediation s)])
             else
               (args0 @ buildEvaluationArgs bld (getOpenedFilePath (mSession s))
                          (getUserTailoringFilePath (mSession s))
                          ''/tmp/xccdf-results.xml'' ''/tmp/report.html'' ''/tmp/arf.xml''
                          (mScannerMode s = SM_SCAN_ONLINE_REMEDIATION) True,
                []))
      in (removeOne ''--progress'' args1, evs))"

subsection \<open>Generating a remediation role\<close>

text \<open>Lines 294 to 328: from creating the role file to the notice before the loop.\<close>

definition role_launch ::
  "build_config \<Rightarrow> env \<Rightarrow> string \<Rightarrow> string \<Rightarrow> string \<Rightarrow> scanner \<Rightarrow> scanner" where
  "role_launch cfg ev fix_type roleFile profileId s =
     (let s1 = emit (if roleFileOpens ev then FileCreate roleFile
                     else FileOpenFailed roleFile) s;
          args = [] @ [''xccdf''] @ [''generate''] @ [''fix'']
                 @ [''--fix-type''] @ [fix_type] @ [''--output''] @ [roleFile]
                 @ [''--result-id''] @ [profileId]
                 @ [mArfFile (mLocalSession s1)];
          (program, args') = getOscapProgram cfg (environ ev) args;
          s2 = emit (ProcStart program args' (workingDirPath ev)) s1
      in emit (InfoMessage ''Processing...'') s2)"

text \<open>Lines 329 to 332.\<close>

partial_function (option) roleLoop :: "env \<Rightarrow> nat \<Rightarrow> scanner \<Rightarrow> scanner option" where
  "roleLoop ev i s =
     (if waitForFinished ev i then Some s else roleLoop ev (Suc i) (emit WatchStdErr s))"

text \<open>Lines 333 to 337.\<close>

definition role_finish :: "env \<Rightarrow> scanner \<Rightarrow> scanner" where
  "role_finish ev s =
     (if exitCode ev = 1 then
        emit (ErrorMessage (''There was an error in course of remediation role generation! ''
                @ ''Exit code of the 'oscap' process was 1.''))
          (emit WatchStdErr s)
      else s)"

definition createRemediationRoleAfterEvaluate ::
  "build_config \<Rightarrow> env \<Rightarrow> string \<Rightarrow> string \<Rightarrow> scanner \<Rightarrow> scanner option" where
  "createRemediationRoleAfterEvaluate cfg ev fix_type roleFile s =
     (let profileId = getProfile (mSession s) in
      if profileId = [] then
        Some (emit (ErrorMessage (''Unable to get profile ID for the passed check. ''
                @ ''It is impossible to get the result ID without the profile ID, ''
                @ ''so no remediation role can be generated.'')) s)
      else map_option (role_finish ev)
             (roleLoop ev 0 (role_launch cfg ev fix_type roleFile profileId s)))"

subsection \<open>Observations on what a run emitted\<close>

text \<open>
  Each function below reads one kind of event off the record of a run, in order:
  the flags of the completion signals, the processes started, the files read back, the
  number of kills, the texts of the error and of the informational notices.
\<close>

fun completions :: "event list \<Rightarrow> bool list" where
  "completions [] = []"
| "completions (Completion c # t) = c # completions t"
| "completions (_ # t) = completions t"

fun spawns :: "event list \<Rightarrow> (string \<times> string list) list" where
  "spawns [] = []"
| "spawns (ProcStart p a d # t) = (p, a) # spawns t"
| "spawns (_ # t) = spawns t"

fun fileReads :: "event list \<Rightarrow> string list" where
  "fileReads [] = []"
| "fileReads (FileRead f # t) = f # fileReads t"
| "fileReads (_ # t) = fileReads t"

fun kills :: "event list \<Rightarrow> nat" where
  "kills [] = 0"
| "kills (ProcKill # t) = Suc (kills t)"
| "kills (_ # t) = kills t"

fun errorMessages :: "event list \<Rightarrow> string list" where
  "errorMessages [] = []"
| "errorMessages (ErrorMessage m # t) = m # errorMessages t"
| "errorMessages (_ # t) = errorMessages t"

fun infoMessages :: "event list \<Rightarrow> string list" where
  "infoMessages [] = []"
| "infoMessages (InfoMessage m # t) = m # infoMessages t"
| "infoMessages (_ # t) = infoMessages t"

text \<open>
  What the events do to the files: \<open>FileCreate\<close> leaves the file empty, \<open>FileWrite\<close>
  leaves it with the bytes written, \<open>FileOpenFailed\<close> and every other event leave the
  files alone. What a started process writes is not recorded.
\<close>

fun fileEffect :: "event \<Rightarrow> (string \<rightharpoonup> string) \<Rightarrow> (string \<rightharpoonup> string)" where
  "fileEffect (FileCreate f) fs = fs(f \<mapsto> [])"
| "fileEffect (FileWrite f b) fs = fs(f \<mapsto> b)"
| "fileEffect _ fs = fs"

fun filesAfter :: "event list \<Rightarrow> (string \<rightharpoonup> string) \<Rightarrow> (string \<rightharpoonup> string)" where
  "filesAfter [] fs = fs"
| "filesAfter (e # t) fs = filesAfter t (fileEffect e fs)"

subsection \<open>The poll loops, round by round\<close>

text \<open>\<open>pollIter ev i k s\<close> is the scanner after rounds \<open>i\<close> to \<open>i + k - 1\<close> of the poll loop.\<close>

fun pollIter :: "env \<Rightarrow> nat \<Rightarrow> nat \<Rightarrow> scanner \<Rightarrow> scanner" where
  "pollIter ev i 0 s = s"
| "pollIter ev i (Suc k) s = pollIter ev (Suc i) k (pollBody ev i s)"

text \<open>
  \<open>finishesAt ev i k\<close>: counting from the \<open>i\<close>-th wait, the first one to report that the
  process has finished is the one \<open>k\<close> later.
\<close>

definition finishesAt :: "env \<Rightarrow> nat \<Rightarrow> nat \<Rightarrow> bool" where
  "finishesAt ev i k = ((\<forall>j<k. \<not> waitForFinished ev (i + j)) \<and> waitForFinished ev (i + k))"

subsection \<open>The dry-run preview as the specification words it\<close>

text \<open>
  This definition follows the specification, not the source: the argument vector of a
  real run of the same mode behind the program name, with the three output paths replaced
  by the placeholders, capability gating disabled and the progress flag removed. It is
  compared with \<open>getCommandLineArgs\<close> below.
\<close>

definition preview_as_specified :: "arg_builder \<Rightarrow> env \<Rightarrow> scanner \<Rightarrow> string list" where
  "preview_as_specified bld ev s =
     removeOne ''--progress''
       (''oscap'' # evaluate_args bld ev s
          ''/tmp/xccdf-results.xml'' ''/tmp/report.html'' ''/tmp/arf.xml'' True)"

subsection \<open>Concrete inputs\<close>

text \<open>
  Inputs on which the properties below are run. \<open>demo_builder\<close> stands in for the two
  argument builders of the base class; nothing is proved about it.
\<close>

definition demo_cfg :: build_config where
  "demo_cfg = \<lparr>SCAP_WORKBENCH_LOCAL_OSCAP_PATH = ''oscap'',
               SCAP_WORKBENCH_LOCAL_PKEXEC_OSCAP_PATH = ''/usr/libexec/scap-workbench-pkexec-oscap.sh'',
               SCAP_WORKBENCH_LOCAL_NICE_FOUND = True,
               SCAP_WORKBENCH_LOCAL_NICE_PATH = ''/usr/bin/nice'',
               SCAP_WORKBENCH_LOCAL_OSCAP_NICENESS = 10\<rparr>"

definition demo_builder :: arg_builder where
  "demo_builder =
     \<lparr>buildEvaluationArgs =
        (\<lambda>inputFile tailoringFile resultFile reportFile arfFile onlineRemediation ignoreCapabilities.
           [''xccdf'', ''eval'']
           @ (if tailoringFile = [] then [] else [''--tailoring-file'', tailoringFile])
           @ (if onlineRemediation then [''--remediate''] else [])
           @ [''--results'', resultFile, ''--results-arf'', arfFile, ''--report'', reportFile,
              ''--progress'', inputFile]),
      buildOfflineRemediationArgs =
        (\<lambda>resultInputFile resultFile reportFile arfFile ignoreCapabilities.
           [''xccdf'', ''remediate'', ''--results'', resultFile, ''--results-arf'', arfFile,
            ''--report'', reportFile, ''--progress'', resultInputFile])\<rparr>"

definition demo_session :: ScanningSession where
  "demo_session = \<lparr>getOpenedFilePath = ''/scan/doc.xml'',
                   hasTailoring = True,
                   getTailoringFilePath = ''/tmp/tailoring-export.xml'',
                   getUserTailoringFilePath = ''/home/user/tailoring.xml'',
                   getProfile = ''xccdf_org_profile_1''\<rparr>"

definition demo_scanner :: scanner where
  "demo_scanner = \<lparr>mDryRun = False,
                   mCancelRequested = False,
                   mScannerMode = SM_SCAN,
                   mSession = demo_session,
                   mLocalSession = \<lparr>mArfFile = ''/tmp/qt_temp.arf'',
                                     mReportFile = ''/tmp/qt_temp.report'',
                                     mResultFile = ''/tmp/qt_temp.result''\<rparr>,
                   mCapabilities = [],
                   getARFForRemediation = [],
                   mResults = [],
                   mReport = [],
                   mARF = [],
                   emitted = []\<rparr>"

text \<open>
  The probe succeeds, the process starts, the third wait is the first to report it
  finished, it exits with code 0, nobody cancels, and the role file can be opened.
\<close>

definition demo_env :: env where
  "demo_env = \<lparr>environ = Map.empty,
               probeExitCode = 0,
               probeDiagnosticInfo = [],
               probeStdOutContents = ''OpenSCAP command line tool (oscap) 1.2.17'',
               checkPrerequisites = True,
               inputARFFileName = ''/tmp/qt_temp.input'',
               workingDirPath = ''/tmp/workdir'',
               processRunning = True,
               waitForFinished = (\<lambda>i. 2 \<le> i),
               cancelDelivered = (\<lambda>i. False),
               exitCode = 0,
               readAll = (\<lambda>f. ''bytes of '' @ f),
               roleFileOpens = True\<rparr>"

section \<open>Properties\<close>

declare digits.simps [simp del]

subsection \<open>Reading events off a concatenation\<close>

lemma completions_append [simp]: "completions (a @ b) = completions a @ completions b"
  by (induction a rule: completions.induct) simp_all

lemma spawns_append [simp]: "spawns (a @ b) = spawns a @ spawns b"
  by (induction a rule: spawns.induct) simp_all

lemma fileReads_append [simp]: "fileReads (a @ b) = fileReads a @ fileReads b"
  by (induction a rule: fileReads.induct) simp_all

lemma kills_append [simp]: "kills (a @ b) = kills a + kills b"
  by (induction a rule: kills.induct) simp_all

lemma errorMessages_append [simp]: "errorMessages (a @ b) = errorMessages a @ errorMessages b"
  by (induction a rule: errorMessages.induct) simp_all

lemma infoMessages_append [simp]: "infoMessages (a @ b) = infoMessages a @ infoMessages b"
  by (induction a rule: infoMessages.induct) simp_all

lemma filesAfter_append [simp]: "filesAfter (a @ b) fs = filesAfter b (filesAfter a fs)"
  by (induction a arbitrary: fs) simp_all

lemma finishesAt_0: "finishesAt ev i 0 = waitForFinished ev i"
  by (simp add: finishesAt_def)

lemma finishesAt_Suc:
  "finishesAt ev i (Suc k) = (\<not> waitForFinished ev i \<and> finishesAt ev (Suc i) k)"
proof -
  have "(\<forall>j<Suc k. \<not> waitForFinished ev (i + j))
        = (\<not> waitForFinished ev i \<and> (\<forall>j<k. \<not> waitForFinished ev (Suc i + j)))"
    by (simp add: All_less_Suc2)
  then show ?thesis by (simp add: finishesAt_def)
qed

lemma pollLoop_unroll:
  "finishesAt ev i k \<Longrightarrow> pollLoop ev i s = Some (pollIter ev i k s)"
proof (induction k arbitrary: i s)
  case 0
  then show ?case by (subst pollLoop.simps) (simp add: finishesAt_0)
next
  case (Suc k)
  then show ?case by (subst pollLoop.simps) (simp add: finishesAt_Suc)
qed

lemma pollLoop_Some:
  assumes "pollLoop ev i s = Some s'"
  shows "\<exists>k. finishesAt ev i k \<and> s' = pollIter ev i k s"
proof (rule pollLoop.raw_induct
    [where P = "\<lambda>e a b c. \<exists>k. finishesAt e a k \<and> c = pollIter e a k b", OF _ assms])
  fix loop e a b c
  assume IH: "\<And>e a b c. loop e a b = Some c
                \<Longrightarrow> \<exists>k. finishesAt e a k \<and> c = pollIter e a k b"
    and eq: "(if waitForFinished e a then Some b else loop e (Suc a) (pollBody e a b)) = Some c"
  show "\<exists>k. finishesAt e a k \<and> c = pollIter e a k b"
  proof (cases "waitForFinished e a")
    case True
    with eq have "finishesAt e a 0 \<and> c = pollIter e a 0 b"
      by (simp add: finishesAt_0)
    then show ?thesis ..
  next
    case False
    with eq have "loop e (Suc a) (pollBody e a b) = Some c" by simp
    then have "\<exists>k. finishesAt e (Suc a) k \<and> c = pollIter e (Suc a) k (pollBody e a b)"
      by (rule IH)
    then obtain k where "finishesAt e (Suc a) k" "c = pollIter e (Suc a) k (pollBody e a b)"
      by (elim exE conjE)
    with False have "finishesAt e a (Suc k) \<and> c = pollIter e a (Suc k) b"
      by (simp add: finishesAt_Suc)
    then show ?thesis ..
  qed
qed

lemma pollLoop_None: "\<forall>k. \<not> finishesAt ev i k \<Longrightarrow> pollLoop ev i s = None"
proof (cases "pollLoop ev i s")
  case None then show ?thesis .
next
  case (Some s')
  assume "\<forall>k. \<not> finishesAt ev i k"
  with pollLoop_Some [OF Some] show ?thesis by simp
qed


subsection \<open>One round of the poll loop\<close>

lemma pollBody_fields:
  "mDryRun (pollBody ev i s) = mDryRun s"
  "mScannerMode (pollBody ev i s) = mScannerMode s"
  "mSession (pollBody ev i s) = mSession s"
  "mLocalSession (pollBody ev i s) = mLocalSession s"
  "mCapabilities (pollBody ev i s) = mCapabilities s"
  "getARFForRemediation (pollBody ev i s) = getARFForRemediation s"
  "mResults (pollBody ev i s) = mResults s"
  "mReport (pollBody ev i s) = mReport s"
  "mARF (pollBody ev i s) = mARF s"
  by (simp_all add: pollBody_def Let_def emit_def)

lemma pollBody_flag:
  "mCancelRequested (pollBody ev i s) = (mCancelRequested s \<or> cancelDelivered ev i)"
  by (simp add: pollBody_def Let_def emit_def)

lemma pollBody_emitted:
  "emitted (pollBody ev i s) = emitted s @ [ReadStdOut, WatchStdErr, ProcessEvents]
     @ (if mCancelRequested s \<or> cancelDelivered ev i
        then [InfoMessage ''Cancellation was requested! Terminating scanning...'', ProcKill]
        else [])"
  by (simp add: pollBody_def Let_def emit_def)

lemma pollIter_fields:
  "mDryRun (pollIter ev i k s) = mDryRun s"
  "mScannerMode (pollIter ev i k s) = mScannerMode s"
  "mSession (pollIter ev i k s) = mSession s"
  "mLocalSession (pollIter ev i k s) = mLocalSession s"
  "mCapabilities (pollIter ev i k s) = mCapabilities s"
  "getARFForRemediation (pollIter ev i k s) = getARFForRemediation s"
  "mResults (pollIter ev i k s) = mResults s"
  "mReport (pollIter ev i k s) = mReport s"
  "mARF (pollIter ev i k s) = mARF s"
  by (induction k arbitrary: i s; simp add: pollBody_fields)+

lemma pollIter_flag:
  "mCancelRequested (pollIter ev i k s)
     = (mCancelRequested s \<or> (\<exists>j<k. cancelDelivered ev (i + j)))"
proof (induction k arbitrary: i s)
  case 0
  show ?case by simp
next
  case (Suc k)
  have "(\<exists>j<Suc k. cancelDelivered ev (i + j))
        = (cancelDelivered ev i \<or> (\<exists>j<k. cancelDelivered ev (Suc i + j)))"
    by (simp add: Ex_less_Suc2)
  then show ?case by (simp add: Suc.IH pollBody_flag)
qed

lemma pollIter_quiet:
  "completions (emitted (pollIter ev i k s)) = completions (emitted s)"
  "spawns (emitted (pollIter ev i k s)) = spawns (emitted s)"
  "fileReads (emitted (pollIter ev i k s)) = fileReads (emitted s)"
  "errorMessages (emitted (pollIter ev i k s)) = errorMessages (emitted s)"
  "filesAfter (emitted (pollIter ev i k s)) fs = filesAfter (emitted s) fs"
  by (induction k arbitrary: i s; simp add: pollBody_emitted)+

lemma pollIter_add:
  "pollIter ev i (a + b) s = pollIter ev (i + a) b (pollIter ev i a s)"
  by (induction a arbitrary: i s) simp_all

text \<open>Once the flag is set, every round kills once and says so once.\<close>

lemma pollIter_cancelled:
  "mCancelRequested s \<Longrightarrow>
     kills (emitted (pollIter ev i k s)) = kills (emitted s) + k
   \<and> infoMessages (emitted (pollIter ev i k s)) = infoMessages (emitted s)
        @ replicate k ''Cancellation was requested! Terminating scanning...''"
proof (induction k arbitrary: i s)
  case 0
  show ?case by simp
next
  case (Suc k)
  have "mCancelRequested (pollBody ev i s)" using Suc.prems by (simp add: pollBody_flag)
  from Suc.IH [OF this, of "Suc i"] show ?case
    using Suc.prems by (simp add: pollBody_emitted replicate_app_Cons_same)
qed

text \<open>While the flag is unset and no request arrives, no round kills or says anything.\<close>

lemma pollIter_undisturbed:
  "\<not> mCancelRequested s \<Longrightarrow> \<forall>j<k. \<not> cancelDelivered ev (i + j) \<Longrightarrow>
     kills (emitted (pollIter ev i k s)) = kills (emitted s)
   \<and> infoMessages (emitted (pollIter ev i k s)) = infoMessages (emitted s)"
proof (induction k arbitrary: i s)
  case 0
  show ?case by simp
next
  case (Suc k)
  from Suc.prems(2) have now: "\<not> cancelDelivered ev i"
    and later: "\<forall>j<k. \<not> cancelDelivered ev (Suc i + j)"
    by (simp_all add: All_less_Suc2)
  have "\<not> mCancelRequested (pollBody ev i s)"
    using Suc.prems(1) now by (simp add: pollBody_flag)
  from Suc.IH [OF this later] show ?case
    using Suc.prems(1) now by (simp add: pollBody_emitted)
qed

text \<open>
  The flag unset at the start and the first request arriving in round \<open>i + c\<close>: that round
  and every later one kill.
\<close>

lemma pollIter_kills:
  assumes "\<not> mCancelRequested s" and "c < k"
    and "\<forall>j<c. \<not> cancelDelivered ev (i + j)" and "cancelDelivered ev (i + c)"
  shows "kills (emitted (pollIter ev i k s)) = kills (emitted s) + (k - c)"
proof -
  define m where "m = k - Suc c"
  with assms(2) have k: "k = c + Suc m" by simp
  let ?a = "pollIter ev i c s"
  let ?b = "pollBody ev (i + c) ?a"
  have a: "kills (emitted ?a) = kills (emitted s)" "\<not> mCancelRequested ?a"
    using pollIter_undisturbed [OF assms(1,3)] assms(1,3) by (simp_all add: pollIter_flag)
  have b: "mCancelRequested ?b" "kills (emitted ?b) = Suc (kills (emitted s))"
    using a assms(4) by (simp_all add: pollBody_flag pollBody_emitted)
  have "pollIter ev i (c + Suc m) s = pollIter ev (i + c) (Suc m) ?a"
    by (rule pollIter_add)
  then have "pollIter ev i k s = pollIter ev (Suc (i + c)) m ?b"
    unfolding k by simp
  then show ?thesis
    using pollIter_cancelled [OF b(1), of ev "Suc (i + c)" m] b(2) by (simp add: k)
qed

subsection \<open>The parts of evaluate\<close>

lemma fillInCapabilities_fails:
  "probeExitCode ev \<noteq> 0 \<Longrightarrow>
   fillInCapabilities cfg ev s =
     Inl (what (''Failed to query capabilities of oscap on local machine.''
                @ [CHR 0x0A] @ ''Diagnostic info:'' @ [CHR 0x0A] @ probeDiagnosticInfo ev),
          s\<lparr>mCancelRequested := True,
            emitted := emitted s @ [SyncRun (SCAP_WORKBENCH_LOCAL_OSCAP_PATH cfg) [''-V''],
                                    Completion True]\<rparr>)"
  by (simp add: fillInCapabilities_def Let_def emit_def signalCompletion_def)

lemma fillInCapabilities_returns:
  "probeExitCode ev = 0 \<Longrightarrow>
   fillInCapabilities cfg ev s =
     Inr (s\<lparr>mCapabilities := probeStdOutContents ev,
            emitted := emitted s @ [SyncRun (SCAP_WORKBENCH_LOCAL_OSCAP_PATH cfg) [''-V'']]\<rparr>)"
  by (simp add: fillInCapabilities_def Let_def emit_def)

lemma evaluate_launch_fields:
  "mDryRun (evaluate_launch cfg bld ev s) = mDryRun s"
  "mScannerMode (evaluate_launch cfg bld ev s) = mScannerMode s"
  "mSession (evaluate_launch cfg bld ev s) = mSession s"
  "mLocalSession (evaluate_launch cfg bld ev s) = mLocalSession s"
  "mCapabilities (evaluate_launch cfg bld ev s) = mCapabilities s"
  "getARFForRemediation (evaluate_launch cfg bld ev s) = getARFForRemediation s"
  "mResults (evaluate_launch cfg bld ev s) = mResults s"
  "mReport (evaluate_launch cfg bld ev s) = mReport s"
  "mARF (evaluate_launch cfg bld ev s) = mARF s"
  by (simp_all add: evaluate_launch_def Let_def emit_def split_def)

lemma evaluate_launch_flag:
  "mCancelRequested (evaluate_launch cfg bld ev s) = (mCancelRequested s \<or> \<not> processRunning ev)"
  by (simp add: evaluate_launch_def Let_def emit_def split_def)

lemma evaluate_launch_quiet:
  "completions (emitted (evaluate_launch cfg bld ev s)) = completions (emitted s)"
  "fileReads (emitted (evaluate_launch cfg bld ev s)) = fileReads (emitted s)"
  "kills (emitted (evaluate_launch cfg bld ev s)) = kills (emitted s)"
  by (simp_all add: evaluate_launch_def Let_def emit_def split_def)

lemma evaluate_launch_spawns:
  "spawns (emitted (evaluate_launch cfg bld ev s)) = spawns (emitted s)
     @ [getOscapProgram cfg (environ ev)
          (evaluate_args bld ev s (mResultFile (mLocalSession s)) (mReportFile (mLocalSession s))
             (mArfFile (mLocalSession s)) False)]"
  by (simp add: evaluate_launch_def Let_def emit_def split_def evaluate_args_def)

lemma evaluate_launch_notices:
  "infoMessages (emitted (evaluate_launch cfg bld ev s)) = infoMessages (emitted s)
     @ [''Starting the oscap process...'', ''Processing...'']"
  "processRunning ev \<Longrightarrow>
     errorMessages (emitted (evaluate_launch cfg bld ev s)) = errorMessages (emitted s)"
  by (simp_all add: evaluate_launch_def Let_def emit_def split_def)

text \<open>A run that reaches the poll loop and whose process finishes at the \<open>n\<close>-th wait.\<close>

lemma evaluate_run:
  assumes "\<not> mDryRun s" and "probeExitCode ev = 0" and "checkPrerequisites ev"
    and "finishesAt ev 0 n"
  shows "evaluate cfg bld ev s =
           Some (evaluate_finish ev (pollIter ev 0 n (evaluate_launch cfg bld ev
             (s\<lparr>mCapabilities := probeStdOutContents ev,
                emitted := emitted s @ [InfoMessage ''Querying capabilities...'',
                  SyncRun (SCAP_WORKBENCH_LOCAL_OSCAP_PATH cfg) [''-V'']]\<rparr>))))"
  using assms
  by (simp add: evaluate_def Let_def fillInCapabilities_returns pollLoop_unroll emit_def)


subsection \<open>After the loop\<close>

lemma evaluate_finish_error:
  "\<not> mCancelRequested s \<Longrightarrow> exitCode ev = 1 \<Longrightarrow>
   evaluate_finish ev s =
     s\<lparr>mCancelRequested := True,
       emitted := emitted s @ [WatchStdErr,
         ErrorMessage (''There was an error during evaluation! ''
           @ ''Exit code of the 'oscap' process was 1.''),
         Completion True]\<rparr>"
  by (simp add: evaluate_finish_def Let_def emit_def signalCompletion_def)

lemma evaluate_finish_success:
  "\<not> mCancelRequested s \<Longrightarrow> exitCode ev \<noteq> 1 \<Longrightarrow>
   evaluate_finish ev s =
     s\<lparr>mResults := readAll ev (mResultFile (mLocalSession s)),
       mReport := readAll ev (mReportFile (mLocalSession s)),
       mARF := readAll ev (mArfFile (mLocalSession s)),
       emitted := emitted s @ [ReadStdOut, WatchStdErr,
         InfoMessage ''The oscap tool has finished. Reading results...'',
         FileRead (mResultFile (mLocalSession s)),
         FileRead (mReportFile (mLocalSession s)),
         FileRead (mArfFile (mLocalSession s)),
         InfoMessage ''Processing has been finished!'',
         Completion False]\<rparr>"
  by (simp add: evaluate_finish_def Let_def emit_def signalCompletion_def)

lemma evaluate_finish_cancelled:
  "mCancelRequested s \<Longrightarrow>
   evaluate_finish ev s =
     s\<lparr>emitted := emitted s @ [InfoMessage ''Scanning cancelled!'', Completion True]\<rparr>"
  by (simp add: evaluate_finish_def Let_def emit_def signalCompletion_def)

lemma evaluate_finish_completion:
  "completions (emitted (evaluate_finish ev s))
     = completions (emitted s) @ [mCancelRequested (evaluate_finish ev s)]"
  by (cases "mCancelRequested s"; cases "exitCode ev = 1")
     (simp_all add: evaluate_finish_error evaluate_finish_success evaluate_finish_cancelled)

lemma finishesAt_first:
  "finishesAt ev 0 n = ((\<forall>j<n. \<not> waitForFinished ev j) \<and> waitForFinished ev n)"
  by (simp add: finishesAt_def)

lemma finishesAt_exists: "waitForFinished ev (i + n) \<Longrightarrow> \<exists>k. finishesAt ev i k"
proof (induction n arbitrary: i)
  case 0
  then have "finishesAt ev i 0" by (simp add: finishesAt_0)
  then show ?case ..
next
  case (Suc n)
  show ?case
  proof (cases "waitForFinished ev i")
    case True
    then have "finishesAt ev i 0" by (simp add: finishesAt_0)
    then show ?thesis ..
  next
    case False
    from Suc.prems have "waitForFinished ev (Suc i + n)" by simp
    from Suc.IH [OF this] obtain k where "finishesAt ev (Suc i) k" ..
    with False have "finishesAt ev i (Suc k)" by (simp add: finishesAt_Suc)
    then show ?thesis ..
  qed
qed

subsection \<open>Runs that reach the poll loop\<close>

text \<open>No cancellation at any point: the exit code decides.\<close>

lemma evaluate_uncancelled:
  assumes "\<not> mDryRun s" and "probeExitCode ev = 0" and "checkPrerequisites ev"
    and "processRunning ev" and "\<not> mCancelRequested s"
    and "finishesAt ev 0 n" and "\<forall>j<n. \<not> cancelDelivered ev j"
  shows "\<exists>s'. evaluate cfg bld ev s = Some s' \<and>
    (if exitCode ev = 1 then
       mCancelRequested s'
       \<and> errorMessages (emitted s') = errorMessages (emitted s)
            @ [''There was an error during evaluation! Exit code of the 'oscap' process was 1.'']
       \<and> fileReads (emitted s') = fileReads (emitted s)
       \<and> mResults s' = mResults s \<and> mReport s' = mReport s \<and> mARF s' = mARF s
       \<and> completions (emitted s') = completions (emitted s) @ [True]
     else
       \<not> mCancelRequested s'
       \<and> fileReads (emitted s') = fileReads (emitted s)
            @ [mResultFile (mLocalSession s), mReportFile (mLocalSession s),
               mArfFile (mLocalSession s)]
       \<and> mResults s' = readAll ev (mResultFile (mLocalSession s))
       \<and> mReport s' = readAll ev (mReportFile (mLocalSession s))
       \<and> mARF s' = readAll ev (mArfFile (mLocalSession s))
       \<and> infoMessages (emitted s') = infoMessages (emitted s)
            @ [''Querying capabilities...'', ''Starting the oscap process...'', ''Processing...'',
               ''The oscap tool has finished. Reading results...'',
               ''Processing has been finished!'']
       \<and> errorMessages (emitted s') = errorMessages (emitted s)
       \<and> completions (emitted s') = completions (emitted s) @ [False])"
proof -
  let ?p = "s\<lparr>mCapabilities := probeStdOutContents ev,
               emitted := emitted s @ [InfoMessage ''Querying capabilities...'',
                 SyncRun (SCAP_WORKBENCH_LOCAL_OSCAP_PATH cfg) [''-V'']]\<rparr>"
  let ?l = "evaluate_launch cfg bld ev ?p"
  let ?q = "pollIter ev 0 n ?l"
  have run: "evaluate cfg bld ev s = Some (evaluate_finish ev ?q)"
    using assms(1,2,3,6) by (rule evaluate_run)
  have l: "\<not> mCancelRequested ?l"
    using assms(4,5) by (simp add: evaluate_launch_flag)
  have q: "\<not> mCancelRequested ?q"
    using l assms(7) by (simp add: pollIter_flag)
  have quiet: "kills (emitted ?q) = kills (emitted ?l)"
    "infoMessages (emitted ?q) = infoMessages (emitted ?l)"
    using pollIter_undisturbed [of ?l n ev 0] l assms(7) by simp_all
  show ?thesis
  proof (cases "exitCode ev = 1")
    case True
    show ?thesis
      unfolding run using True assms(4)
      by (simp add: evaluate_finish_error [OF q True] pollIter_quiet pollIter_fields
          evaluate_launch_quiet evaluate_launch_fields evaluate_launch_notices)
  next
    case False
    show ?thesis
      unfolding run using False assms(4)
      by (simp add: evaluate_finish_success [OF q False] q pollIter_quiet pollIter_fields quiet
          evaluate_launch_quiet evaluate_launch_fields evaluate_launch_notices)
  qed
qed

text \<open>The first cancel request arrives in round \<open>c\<close>, before the process has finished.\<close>

lemma evaluate_cancelled:
  assumes "\<not> mDryRun s" and "probeExitCode ev = 0" and "checkPrerequisites ev"
    and "processRunning ev" and "\<not> mCancelRequested s"
    and "finishesAt ev 0 n" and "c < n"
    and "\<forall>j<c. \<not> cancelDelivered ev j" and "cancelDelivered ev c"
  shows "\<exists>s'. evaluate cfg bld ev s = Some s'
    \<and> mCancelRequested s'
    \<and> completions (emitted s') = completions (emitted s) @ [True]
    \<and> fileReads (emitted s') = fileReads (emitted s)
    \<and> mResults s' = mResults s \<and> mReport s' = mReport s \<and> mARF s' = mARF s
    \<and> kills (emitted s') = kills (emitted s) + (n - c)"
proof -
  let ?p = "s\<lparr>mCapabilities := probeStdOutContents ev,
               emitted := emitted s @ [InfoMessage ''Querying capabilities...'',
                 SyncRun (SCAP_WORKBENCH_LOCAL_OSCAP_PATH cfg) [''-V'']]\<rparr>"
  let ?l = "evaluate_launch cfg bld ev ?p"
  let ?q = "pollIter ev 0 n ?l"
  have run: "evaluate cfg bld ev s = Some (evaluate_finish ev ?q)"
    using assms(1,2,3,6) by (rule evaluate_run)
  have l: "\<not> mCancelRequested ?l"
    using assms(4,5) by (simp add: evaluate_launch_flag)
  have q: "mCancelRequested ?q"
    using assms(7,9) by (auto simp add: pollIter_flag)
  have k: "kills (emitted ?q) = kills (emitted ?l) + (n - c)"
    using pollIter_kills [of ?l c n ev 0] l assms(7,8,9) by simp
  show ?thesis
    unfolding run
    by (simp add: evaluate_finish_cancelled [OF q] q k pollIter_quiet pollIter_fields
        evaluate_launch_quiet evaluate_launch_fields)
qed

text \<open>Whether evaluate returns, and what it has signalled when it does.\<close>

lemma evaluate_never_finishes:
  assumes "\<not> mDryRun s" and "probeExitCode ev = 0" and "checkPrerequisites ev"
    and "\<forall>n. \<not> waitForFinished ev n"
  shows "evaluate cfg bld ev s = None"
proof -
  have "\<forall>k. \<not> finishesAt ev 0 k"
    using assms(4) by (simp add: finishesAt_def)
  then show ?thesis
    using assms(1,2,3)
    by (simp add: evaluate_def Let_def fillInCapabilities_returns pollLoop_None)
qed

lemma evaluate_returns:
  assumes "mDryRun s \<or> probeExitCode ev \<noteq> 0 \<or> \<not> checkPrerequisites ev
           \<or> (\<exists>n. waitForFinished ev n)"
  shows "\<exists>s'. evaluate cfg bld ev s = Some s'
           \<and> completions (emitted s') = completions (emitted s) @ [mCancelRequested s']"
proof (cases "mDryRun s \<or> probeExitCode ev \<noteq> 0 \<or> \<not> checkPrerequisites ev")
  case True
  show ?thesis
  proof (cases "mDryRun s")
    case True
    then show ?thesis by (simp add: evaluate_def emit_def signalCompletion_def)
  next
    case dry: False
    show ?thesis
    proof (cases "probeExitCode ev = 0")
      case True
      with \<open>mDryRun s \<or> probeExitCode ev \<noteq> 0 \<or> \<not> checkPrerequisites ev\<close> dry
      have "\<not> checkPrerequisites ev" by simp
      with dry True show ?thesis
        by (simp add: evaluate_def Let_def fillInCapabilities_returns emit_def
            signalCompletion_def)
    next
      case False
      with dry show ?thesis
        by (simp add: evaluate_def Let_def fillInCapabilities_fails emit_def)
    qed
  qed
next
  case False
  with assms obtain n where "waitForFinished ev (0 + n)" by auto
  from finishesAt_exists [OF this] obtain k where k: "finishesAt ev 0 k" ..
  have "evaluate cfg bld ev s =
          Some (evaluate_finish ev (pollIter ev 0 k (evaluate_launch cfg bld ev
            (s\<lparr>mCapabilities := probeStdOutContents ev,
               emitted := emitted s @ [InfoMessage ''Querying capabilities...'',
                 SyncRun (SCAP_WORKBENCH_LOCAL_OSCAP_PATH cfg) [''-V'']]\<rparr>))))"
    using False k by (intro evaluate_run) simp_all
  then show ?thesis
    by (simp add: evaluate_finish_completion pollIter_quiet evaluate_launch_quiet)
qed

subsection \<open>The loop of the role generator\<close>

lemma roleLoop_unroll:
  "finishesAt ev i k \<Longrightarrow>
   roleLoop ev i s = Some (s\<lparr>emitted := emitted s @ replicate k WatchStdErr\<rparr>)"
proof (induction k arbitrary: i s)
  case 0
  then show ?case by (subst roleLoop.simps) (simp add: finishesAt_0)
next
  case (Suc k)
  then show ?case by (subst roleLoop.simps) (simp add: finishesAt_Suc emit_def)
qed

lemma roleLoop_Some:
  assumes "roleLoop ev i s = Some s'"
  shows "\<exists>k. finishesAt ev i k \<and> s' = s\<lparr>emitted := emitted s @ replicate k WatchStdErr\<rparr>"
proof (rule roleLoop.raw_induct
    [where P = "\<lambda>e a b c. \<exists>k. finishesAt e a k
                  \<and> c = b\<lparr>emitted := emitted b @ replicate k WatchStdErr\<rparr>", OF _ assms])
  fix loop e a b c
  assume IH: "\<And>e a b c. loop e a b = Some c
                \<Longrightarrow> \<exists>k. finishesAt e a k
                       \<and> c = b\<lparr>emitted := emitted b @ replicate k WatchStdErr\<rparr>"
    and eq: "(if waitForFinished e a then Some b else loop e (Suc a) (emit WatchStdErr b)) = Some c"
  show "\<exists>k. finishesAt e a k \<and> c = b\<lparr>emitted := emitted b @ replicate k WatchStdErr\<rparr>"
  proof (cases "waitForFinished e a")
    case True
    with eq have "finishesAt e a 0 \<and> c = b\<lparr>emitted := emitted b @ replicate 0 WatchStdErr\<rparr>"
      by (simp add: finishesAt_0)
    then show ?thesis ..
  next
    case False
    with eq have "loop e (Suc a) (emit WatchStdErr b) = Some c" by simp
    then have "\<exists>k. finishesAt e (Suc a) k
                 \<and> c = (emit WatchStdErr b)
                       \<lparr>emitted := emitted (emit WatchStdErr b) @ replicate k WatchStdErr\<rparr>"
      by (rule IH)
    then obtain k where k: "finishesAt e (Suc a) k"
      "c = (emit WatchStdErr b)
             \<lparr>emitted := emitted (emit WatchStdErr b) @ replicate k WatchStdErr\<rparr>"
      by (elim exE conjE)
    with False have "finishesAt e a (Suc k)
        \<and> c = b\<lparr>emitted := emitted b @ replicate (Suc k) WatchStdErr\<rparr>"
      by (simp add: finishesAt_Suc emit_def)
    then show ?thesis ..
  qed
qed

lemma role_launch_eq:
  "role_launch cfg ev fix_type roleFile profileId s =
     s\<lparr>emitted := emitted s @ [if roleFileOpens ev then FileCreate roleFile else FileOpenFailed roleFile,
          ProcStart
            (fst (getOscapProgram cfg (environ ev)
               [''xccdf'', ''generate'', ''fix'', ''--fix-type'', fix_type, ''--output'', roleFile,
                ''--result-id'', profileId, mArfFile (mLocalSession s)]))
            (snd (getOscapProgram cfg (environ ev)
               [''xccdf'', ''generate'', ''fix'', ''--fix-type'', fix_type, ''--output'', roleFile,
                ''--result-id'', profileId, mArfFile (mLocalSession s)]))
            (workingDirPath ev),
          InfoMessage ''Processing...'']\<rparr>"
  by (simp add: role_launch_def Let_def emit_def split_def)

lemma role_finish_eq:
  "role_finish ev s =
     s\<lparr>emitted := emitted s @
         (if exitCode ev = 1
          then [WatchStdErr,
                ErrorMessage (''There was an error in course of remediation role generation! ''
                  @ ''Exit code of the 'oscap' process was 1.'')]
          else [])\<rparr>"
  by (simp add: role_finish_def emit_def)

text \<open>What a call that got past the profile check has done when it returns.\<close>

lemma role_run:
  assumes "getProfile (mSession s) \<noteq> []" and "finishesAt ev 0 n"
  shows "createRemediationRoleAfterEvaluate cfg ev fix_type roleFile s =
     Some (s\<lparr>emitted := emitted s @ [if roleFileOpens ev then FileCreate roleFile else FileOpenFailed roleFile,
          ProcStart
            (fst (getOscapProgram cfg (environ ev)
               [''xccdf'', ''generate'', ''fix'', ''--fix-type'', fix_type, ''--output'', roleFile,
                ''--result-id'', getProfile (mSession s), mArfFile (mLocalSession s)]))
            (snd (getOscapProgram cfg (environ ev)
               [''xccdf'', ''generate'', ''fix'', ''--fix-type'', fix_type, ''--output'', roleFile,
                ''--result-id'', getProfile (mSession s), mArfFile (mLocalSession s)]))
            (workingDirPath ev),
          InfoMessage ''Processing...'']
        @ replicate n WatchStdErr
        @ (if exitCode ev = 1
           then [WatchStdErr,
                 ErrorMessage (''There was an error in course of remediation role generation! ''
                   @ ''Exit code of the 'oscap' process was 1.'')]
           else [])\<rparr>)"
  using assms
  by (simp add: createRemediationRoleAfterEvaluate_def Let_def roleLoop_unroll role_launch_eq
      role_finish_eq)

lemma role_returned:
  assumes "createRemediationRoleAfterEvaluate cfg ev fix_type roleFile s = Some s'"
  shows "\<exists>evs. s' = s\<lparr>emitted := emitted s @ evs\<rparr>
           \<and> completions evs = [] \<and> kills evs = 0 \<and> fileReads evs = []"
proof (cases "getProfile (mSession s) = []")
  case True
  with assms have "s' = s\<lparr>emitted := emitted s @
      [ErrorMessage (''Unable to get profile ID for the passed check. ''
         @ ''It is impossible to get the result ID without the profile ID, ''
         @ ''so no remediation role can be generated.'')]\<rparr>"
    by (simp add: createRemediationRoleAfterEvaluate_def emit_def)
  moreover have "completions [ErrorMessage m] = [] \<and> kills [ErrorMessage m] = 0
      \<and> fileReads [ErrorMessage m] = []" for m
    by simp
  ultimately show ?thesis by blast
next
  case False
  with assms obtain r where
    r: "roleLoop ev 0 (role_launch cfg ev fix_type roleFile (getProfile (mSession s)) s) = Some r"
    and s': "s' = role_finish ev r"
    by (auto simp add: createRemediationRoleAfterEvaluate_def Let_def)
  from roleLoop_Some [OF r] obtain k where "finishesAt ev 0 k" by (elim exE conjE)
  have quiet: "completions (replicate k WatchStdErr) = [] \<and> kills (replicate k WatchStdErr) = 0
      \<and> fileReads (replicate k WatchStdErr) = []" for k
    by (induction k) simp_all
  let ?evs = "[if roleFileOpens ev then FileCreate roleFile else FileOpenFailed roleFile,
          ProcStart
            (fst (getOscapProgram cfg (environ ev)
               [''xccdf'', ''generate'', ''fix'', ''--fix-type'', fix_type, ''--output'', roleFile,
                ''--result-id'', getProfile (mSession s), mArfFile (mLocalSession s)]))
            (snd (getOscapProgram cfg (environ ev)
               [''xccdf'', ''generate'', ''fix'', ''--fix-type'', fix_type, ''--output'', roleFile,
                ''--result-id'', getProfile (mSession s), mArfFile (mLocalSession s)]))
            (workingDirPath ev),
          InfoMessage ''Processing...'']
        @ replicate k WatchStdErr
        @ (if exitCode ev = 1
           then [WatchStdErr,
                 ErrorMessage (''There was an error in course of remediation role generation! ''
                   @ ''Exit code of the 'oscap' process was 1.'')]
           else [])"
  from role_run [OF False \<open>finishesAt ev 0 k\<close>, of cfg fix_type roleFile] assms
  have "s' = s\<lparr>emitted := emitted s @ ?evs\<rparr>" by simp
  moreover have "completions ?evs = [] \<and> kills ?evs = 0 \<and> fileReads ?evs = []"
    by (simp add: quiet)
  ultimately show ?thesis by blast
qed

subsection \<open>Dry run\<close>

text \<open>
  C9, as amended. Whatever the scan mode, a dry run starts no process, leaves the three
  buffers as they were (empty when they were empty) and signals completion at once,
  exactly once, carrying the cancellation flag as it was on entry: Completed when no
  cancellation was pending on entry, cancelled otherwise.
\<close>

theorem dry_run_completes:
  assumes "mDryRun s"
  shows "\<exists>s'. evaluate cfg bld ev s = Some s'
           \<and> emitted s' = emitted s @ [Completion (mCancelRequested s)]
           \<and> spawns (emitted s') = spawns (emitted s)
           \<and> mResults s' = mResults s \<and> mReport s' = mReport s \<and> mARF s' = mARF s
           \<and> (\<not> mCancelRequested s \<longrightarrow>
                 completions (emitted s') = completions (emitted s) @ [False])
           \<and> (mResults s = [] \<and> mReport s = [] \<and> mARF s = [] \<longrightarrow>
                 mResults s' = [] \<and> mReport s' = [] \<and> mARF s' = [])"
  using assms by (simp add: evaluate_def signalCompletion_def emit_def)

theorem dry_run_completes_witness:
  "mDryRun (demo_scanner\<lparr>mDryRun := True, mScannerMode := SM_OFFLINE_REMEDIATION\<rparr>)
   \<and> (\<exists>s'. evaluate demo_cfg demo_builder demo_env
              (demo_scanner\<lparr>mDryRun := True, mScannerMode := SM_OFFLINE_REMEDIATION\<rparr>) = Some s'
          \<and> emitted s' = [Completion False] \<and> spawns (emitted s') = []
          \<and> completions (emitted s') = [False]
          \<and> mResults s' = [] \<and> mReport s' = [] \<and> mARF s' = [])"
  using dry_run_completes
    [of "demo_scanner\<lparr>mDryRun := True, mScannerMode := SM_OFFLINE_REMEDIATION\<rparr>"
        demo_cfg demo_builder demo_env]
  by (auto simp add: demo_scanner_def)

text \<open>
  The claim as stated fails: a dry run entered with the cancellation flag already set
  passes the flag on, and the one completion signal says cancelled.
\<close>

theorem dry_run_passes_flag_on:
  "mDryRun (demo_scanner\<lparr>mDryRun := True, mCancelRequested := True\<rparr>)
   \<and> evaluate demo_cfg demo_builder demo_env
         (demo_scanner\<lparr>mDryRun := True, mCancelRequested := True\<rparr>)
       = Some (demo_scanner\<lparr>mDryRun := True, mCancelRequested := True,
                 emitted := [Completion True]\<rparr>)"
  by (simp add: evaluate_def signalCompletion_def emit_def demo_scanner_def)

subsection \<open>Failure of the capability probe\<close>

text \<open>
  C3. When the probe exits with a code other than 0, \<open>fillInCapabilities\<close> throws with a
  text that is not empty, after marking the run cancelled and signalling completion;
  \<open>evaluate\<close> catches it, emits the text as an error notice and returns. No scan process is
  started and nothing else is emitted.
\<close>

theorem probe_failure_ends_run:
  assumes "\<not> mDryRun s" and "probeExitCode ev \<noteq> 0"
  shows "\<exists>w s'. w = what (''Failed to query capabilities of oscap on local machine.''
                     @ [CHR 0x0A] @ ''Diagnostic info:'' @ [CHR 0x0A] @ probeDiagnosticInfo ev)
           \<and> w \<noteq> []
           \<and> (\<exists>s2. fillInCapabilities cfg ev (emit (InfoMessage ''Querying capabilities...'') s)
                      = Inl (w, s2))
           \<and> evaluate cfg bld ev s = Some s'
           \<and> s' = s\<lparr>mCancelRequested := True,
                     emitted := emitted s @ [InfoMessage ''Querying capabilities...'',
                       SyncRun (SCAP_WORKBENCH_LOCAL_OSCAP_PATH cfg) [''-V''],
                       Completion True, ErrorMessage w]\<rparr>
           \<and> spawns (emitted s') = spawns (emitted s)
           \<and> completions (emitted s') = completions (emitted s) @ [True]
           \<and> errorMessages (emitted s') = errorMessages (emitted s) @ [w]"
  using assms
  by (simp add: evaluate_def Let_def fillInCapabilities_fails emit_def what_def)

theorem probe_failure_ends_run_witness:
  "\<not> mDryRun demo_scanner \<and> probeExitCode (demo_env\<lparr>probeExitCode := 127\<rparr>) \<noteq> 0
   \<and> evaluate demo_cfg demo_builder (demo_env\<lparr>probeExitCode := 127\<rparr>) demo_scanner
       = Some (demo_scanner\<lparr>mCancelRequested := True,
            emitted := [InfoMessage ''Querying capabilities...'', SyncRun ''oscap'' [''-V''],
              Completion True,
              ErrorMessage (''Failed to query capabilities of oscap on local machine.''
                @ [CHR 0x0A] @ ''Diagnostic info:'' @ [CHR 0x0A])]\<rparr>)"
  using probe_failure_ends_run [of demo_scanner "demo_env\<lparr>probeExitCode := 127\<rparr>" demo_cfg demo_builder]
  by (simp add: demo_scanner_def demo_env_def demo_cfg_def what_def)


subsection \<open>The exit code\<close>

text \<open>
  C1. In a run that reaches the poll loop with the process started, in which no
  cancellation is requested before the process has finished: when the exit code is 1, an
  error notice is emitted, the run is marked cancelled and none of the three files is
  read; for every other exit code the result, report and archive files are read, in that
  order, each in full into its buffer, the success notice is emitted and the run is not
  marked cancelled.
\<close>

theorem exit_code_decides:
  assumes "\<not> mDryRun s" and "probeExitCode ev = 0" and "checkPrerequisites ev"
    and "processRunning ev" and "\<not> mCancelRequested s"
    and "\<forall>j<n. \<not> waitForFinished ev j" and "waitForFinished ev n"
    and "\<forall>j<n. \<not> cancelDelivered ev j"
  shows "\<exists>s'. evaluate cfg bld ev s = Some s' \<and>
    (if exitCode ev = 1 then
       mCancelRequested s'
       \<and> errorMessages (emitted s') = errorMessages (emitted s)
            @ [''There was an error during evaluation! Exit code of the 'oscap' process was 1.'']
       \<and> fileReads (emitted s') = fileReads (emitted s)
       \<and> mResults s' = mResults s \<and> mReport s' = mReport s \<and> mARF s' = mARF s
       \<and> completions (emitted s') = completions (emitted s) @ [True]
     else
       \<not> mCancelRequested s'
       \<and> fileReads (emitted s') = fileReads (emitted s)
            @ [mResultFile (mLocalSession s), mReportFile (mLocalSession s),
               mArfFile (mLocalSession s)]
       \<and> mResults s' = readAll ev (mResultFile (mLocalSession s))
       \<and> mReport s' = readAll ev (mReportFile (mLocalSession s))
       \<and> mARF s' = readAll ev (mArfFile (mLocalSession s))
       \<and> infoMessages (emitted s') = infoMessages (emitted s)
            @ [''Querying capabilities...'', ''Starting the oscap process...'', ''Processing...'',
               ''The oscap tool has finished. Reading results...'',
               ''Processing has been finished!'']
       \<and> errorMessages (emitted s') = errorMessages (emitted s)
       \<and> completions (emitted s') = completions (emitted s) @ [False])"
  using assms by (intro evaluate_uncancelled) (simp_all add: finishesAt_first)

theorem exit_code_decides_witness:
  "(\<exists>s'. evaluate demo_cfg demo_builder (demo_env\<lparr>exitCode := 3\<rparr>) demo_scanner = Some s'
      \<and> \<not> mCancelRequested s'
      \<and> fileReads (emitted s')
          = [''/tmp/qt_temp.result'', ''/tmp/qt_temp.report'', ''/tmp/qt_temp.arf'']
      \<and> mResults s' = ''bytes of /tmp/qt_temp.result''
      \<and> mReport s' = ''bytes of /tmp/qt_temp.report''
      \<and> mARF s' = ''bytes of /tmp/qt_temp.arf''
      \<and> completions (emitted s') = [False])
   \<and> (\<exists>s'. evaluate demo_cfg demo_builder (demo_env\<lparr>exitCode := 1\<rparr>) demo_scanner = Some s'
      \<and> mCancelRequested s' \<and> fileReads (emitted s') = []
      \<and> mResults s' = [] \<and> mReport s' = [] \<and> mARF s' = []
      \<and> completions (emitted s') = [True])"
proof -
  let ?a = "demo_env\<lparr>exitCode := 3\<rparr>"
  let ?b = "demo_env\<lparr>exitCode := 1\<rparr>"
  have a: "\<not> mDryRun demo_scanner" "probeExitCode ?a = 0" "checkPrerequisites ?a"
    "processRunning ?a" "\<not> mCancelRequested demo_scanner"
    "\<forall>j<2. \<not> waitForFinished ?a j" "waitForFinished ?a 2" "\<forall>j<2. \<not> cancelDelivered ?a j"
    by (simp_all add: demo_env_def demo_scanner_def)
  have b: "\<not> mDryRun demo_scanner" "probeExitCode ?b = 0" "checkPrerequisites ?b"
    "processRunning ?b" "\<not> mCancelRequested demo_scanner"
    "\<forall>j<2. \<not> waitForFinished ?b j" "waitForFinished ?b 2" "\<forall>j<2. \<not> cancelDelivered ?b j"
    by (simp_all add: demo_env_def demo_scanner_def)
  from exit_code_decides [OF a, of demo_cfg demo_builder]
  have "\<exists>s'. evaluate demo_cfg demo_builder ?a demo_scanner = Some s'
      \<and> \<not> mCancelRequested s'
      \<and> fileReads (emitted s')
          = [''/tmp/qt_temp.result'', ''/tmp/qt_temp.report'', ''/tmp/qt_temp.arf'']
      \<and> mResults s' = ''bytes of /tmp/qt_temp.result''
      \<and> mReport s' = ''bytes of /tmp/qt_temp.report''
      \<and> mARF s' = ''bytes of /tmp/qt_temp.arf''
      \<and> completions (emitted s') = [False]"
    by (auto simp add: demo_scanner_def demo_env_def)
  moreover
  from exit_code_decides [OF b, of demo_cfg demo_builder]
  have "\<exists>s'. evaluate demo_cfg demo_builder ?b demo_scanner = Some s'
      \<and> mCancelRequested s' \<and> fileReads (emitted s') = []
      \<and> mResults s' = [] \<and> mReport s' = [] \<and> mARF s' = []
      \<and> completions (emitted s') = [True]"
    by (auto simp add: demo_scanner_def demo_env_def)
  ultimately show ?thesis ..
qed

subsection \<open>Cancellation during the poll loop\<close>

text \<open>
  C2, as amended. In a run whose process was started, with the first cancel request
  arriving in round \<open>c\<close> of the poll loop and the process reported finished by wait \<open>n\<close>
  for the first time (\<open>c < n\<close>): whatever the exit code, the run ends cancelled, no file
  is read back, the buffers are untouched, and kill is issued once in each of the rounds
  \<open>c\<close> to \<open>n - 1\<close>, that is \<open>n - c\<close> times: exactly once when the wait that follows the
  first kill reports the process finished.
\<close>

theorem cancel_during_poll:
  assumes "\<not> mDryRun s" and "probeExitCode ev = 0" and "checkPrerequisites ev"
    and "processRunning ev" and "\<not> mCancelRequested s"
    and "\<forall>j<n. \<not> waitForFinished ev j" and "waitForFinished ev n"
    and "c < n" and "\<forall>j<c. \<not> cancelDelivered ev j" and "cancelDelivered ev c"
  shows "\<exists>s'. evaluate cfg bld ev s = Some s'
    \<and> mCancelRequested s'
    \<and> completions (emitted s') = completions (emitted s) @ [True]
    \<and> fileReads (emitted s') = fileReads (emitted s)
    \<and> mResults s' = mResults s \<and> mReport s' = mReport s \<and> mARF s' = mARF s
    \<and> kills (emitted s') = kills (emitted s) + (n - c)"
  using assms by (intro evaluate_cancelled) (simp_all add: finishesAt_first)

theorem cancel_during_poll_witness:
  "exitCode (demo_env\<lparr>cancelDelivered := (\<lambda>i. i = 1)\<rparr>) = 0
   \<and> (\<exists>s'. evaluate demo_cfg demo_builder (demo_env\<lparr>cancelDelivered := (\<lambda>i. i = 1)\<rparr>)
              demo_scanner = Some s'
        \<and> mCancelRequested s' \<and> completions (emitted s') = [True]
        \<and> fileReads (emitted s') = [] \<and> mResults s' = [] \<and> mReport s' = [] \<and> mARF s' = []
        \<and> kills (emitted s') = 1)"
proof -
  let ?e = "demo_env\<lparr>cancelDelivered := (\<lambda>i. i = 1)\<rparr>"
  have h: "\<not> mDryRun demo_scanner" "probeExitCode ?e = 0" "checkPrerequisites ?e"
    "processRunning ?e" "\<not> mCancelRequested demo_scanner"
    "\<forall>j<2. \<not> waitForFinished ?e j" "waitForFinished ?e 2"
    "(1::nat) < 2" "\<forall>j<1. \<not> cancelDelivered ?e j" "cancelDelivered ?e 1"
    by (simp_all add: demo_env_def demo_scanner_def)
  from cancel_during_poll [OF h, of demo_cfg demo_builder]
  show ?thesis by (auto simp add: demo_scanner_def demo_env_def)
qed

text \<open>
  The claim as stated fails: the request arrives in round 0, the process is reported
  finished by the third wait and exits with code 0, and kill has been issued twice.
\<close>

theorem cancel_kills_twice:
  "processRunning (demo_env\<lparr>cancelDelivered := (\<lambda>i. i = 0)\<rparr>)
   \<and> cancelDelivered (demo_env\<lparr>cancelDelivered := (\<lambda>i. i = 0)\<rparr>) 0
   \<and> exitCode (demo_env\<lparr>cancelDelivered := (\<lambda>i. i = 0)\<rparr>) = 0
   \<and> evaluate demo_cfg demo_builder (demo_env\<lparr>cancelDelivered := (\<lambda>i. i = 0)\<rparr>) demo_scanner
       \<noteq> None
   \<and> kills (emitted (the (evaluate demo_cfg demo_builder
         (demo_env\<lparr>cancelDelivered := (\<lambda>i. i = 0)\<rparr>) demo_scanner))) = 2"
proof -
  let ?e = "demo_env\<lparr>cancelDelivered := (\<lambda>i. i = 0)\<rparr>"
  have h: "\<not> mDryRun demo_scanner" "probeExitCode ?e = 0" "checkPrerequisites ?e"
    "processRunning ?e" "\<not> mCancelRequested demo_scanner"
    "finishesAt ?e 0 2" "(0::nat) < 2" "\<forall>j<0. \<not> cancelDelivered ?e j" "cancelDelivered ?e 0"
    by (simp_all add: demo_env_def demo_scanner_def finishesAt_def)
  from evaluate_cancelled [OF h, of demo_cfg demo_builder]
  show ?thesis by (auto simp add: demo_scanner_def demo_env_def)
qed

subsection \<open>The completion signal\<close>

text \<open>
  C4. Every run of \<open>evaluate\<close> is to signal completion exactly once. The run in which the
  process cannot be started does not: the probe has succeeded and the prerequisites hold,
  the start fails, the failure is reported and the cancellation flag is set, and the poll
  loop is entered all the same. \<^verbatim>\<open>QProcess::waitForFinished\<close> answers false for a process
  that is not running, so no wait ever reports the process finished, the loop is never
  left, \<open>evaluate\<close> does not return, and no completion signal has been emitted on the way
  to the loop. The failures of the probe and of the prerequisites signal and return at
  once; this one neither signals nor returns.
\<close>

theorem launch_failure_never_signals:
  assumes "\<not> mDryRun s" and "probeExitCode ev = 0" and "checkPrerequisites ev"
    and "\<not> processRunning ev" and "\<forall>n. \<not> waitForFinished ev n"
  shows "evaluate cfg bld ev s = None
     \<and> mCancelRequested (evaluate_launch cfg bld ev s)
     \<and> errorMessages (emitted (evaluate_launch cfg bld ev s)) = errorMessages (emitted s)
          @ [''Failed to start local scanning process '' @ [CHR 0x27]
             @ fst (getOscapProgram cfg (environ ev)
                 (evaluate_args bld ev s (mResultFile (mLocalSession s))
                    (mReportFile (mLocalSession s)) (mArfFile (mLocalSession s)) False))
             @ [CHR 0x27] @ ''. Perhaps the executable was not found?'']
     \<and> completions (emitted (evaluate_launch cfg bld ev s)) = completions (emitted s)"
proof -
  have "evaluate cfg bld ev s = None"
    using assms(1,2,3,5) by (rule evaluate_never_finishes)
  moreover have "mCancelRequested (evaluate_launch cfg bld ev s)"
    using assms(4) by (simp add: evaluate_launch_flag)
  moreover have "errorMessages (emitted (evaluate_launch cfg bld ev s))
      = errorMessages (emitted s)
          @ [''Failed to start local scanning process '' @ [CHR 0x27]
             @ fst (getOscapProgram cfg (environ ev)
                 (evaluate_args bld ev s (mResultFile (mLocalSession s))
                    (mReportFile (mLocalSession s)) (mArfFile (mLocalSession s)) False))
             @ [CHR 0x27] @ ''. Perhaps the executable was not found?'']"
    using assms(4)
    by (simp add: evaluate_launch_def Let_def emit_def split_def evaluate_args_def)
  moreover have "completions (emitted (evaluate_launch cfg bld ev s)) = completions (emitted s)"
    by (rule evaluate_launch_quiet)
  ultimately show ?thesis by simp
qed

theorem launch_failure_never_signals_witness:
  "\<not> processRunning (demo_env\<lparr>processRunning := False, waitForFinished := (\<lambda>i. False)\<rparr>)
   \<and> evaluate demo_cfg demo_builder
         (demo_env\<lparr>processRunning := False, waitForFinished := (\<lambda>i. False)\<rparr>) demo_scanner
       = None
   \<and> completions (emitted (evaluate_launch demo_cfg demo_builder
         (demo_env\<lparr>processRunning := False, waitForFinished := (\<lambda>i. False)\<rparr>) demo_scanner))
       = []"
proof -
  let ?e = "demo_env\<lparr>processRunning := False, waitForFinished := (\<lambda>i. False)\<rparr>"
  have h: "\<not> mDryRun demo_scanner" "probeExitCode ?e = 0" "checkPrerequisites ?e"
    "\<not> processRunning ?e" "\<forall>n. \<not> waitForFinished ?e n"
    by (simp_all add: demo_env_def demo_scanner_def)
  from launch_failure_never_signals [OF h, of demo_cfg demo_builder] h(4)
  show ?thesis by (simp add: demo_scanner_def)
qed

subsection \<open>Generating a remediation role\<close>

text \<open>
  C7. With an empty profile identifier the call emits one error notice and returns: no
  process is started and no file is created or written.
\<close>

theorem missing_profile_reported:
  assumes "getProfile (mSession s) = []"
  shows "\<exists>s'. createRemediationRoleAfterEvaluate cfg ev fix_type roleFile s = Some s'
     \<and> emitted s' = emitted s @
          [ErrorMessage (''Unable to get profile ID for the passed check. ''
             @ ''It is impossible to get the result ID without the profile ID, ''
             @ ''so no remediation role can be generated.'')]
     \<and> spawns (emitted s') = spawns (emitted s)
     \<and> filesAfter (emitted s') fs = filesAfter (emitted s) fs"
  using assms by (simp add: createRemediationRoleAfterEvaluate_def emit_def)

theorem missing_profile_reported_witness:
  "getProfile (mSession (demo_scanner\<lparr>mSession := demo_session\<lparr>getProfile := []\<rparr>\<rparr>)) = []
   \<and> (\<exists>s'. createRemediationRoleAfterEvaluate demo_cfg demo_env ''bash'' ''/home/user/role.sh''
              (demo_scanner\<lparr>mSession := demo_session\<lparr>getProfile := []\<rparr>\<rparr>) = Some s'
        \<and> errorMessages (emitted s') =
             [''Unable to get profile ID for the passed check. It is impossible to get the result ID without the profile ID, so no remediation role can be generated.'']
        \<and> spawns (emitted s') = []
        \<and> filesAfter (emitted s') Map.empty ''/home/user/role.sh'' = None)"
  using missing_profile_reported
    [of "demo_scanner\<lparr>mSession := demo_session\<lparr>getProfile := []\<rparr>\<rparr>"
        demo_cfg demo_env "''bash''" "''/home/user/role.sh''" Map.empty]
  by (auto simp add: demo_scanner_def)

text \<open>
  C8, as amended. With a profile identifier that is not empty, the first thing done is to
  open the role file for writing and close it, which creates it with length zero when the
  open succeeds and leaves the files as they were when it fails; the result of the open
  is not looked at. The second thing done, in either case, is to start the program that
  \<open>getOscapProgram\<close> returns, on the arguments
  \<open>xccdf generate fix --fix-type <type> --output <path> --result-id <profile> <archive>\<close>
  behind the prefix that \<open>getOscapProgram\<close> puts in front (none without the niceness
  wrapper). This holds of the call up to its loop, and of the whole call when some wait
  reports the process finished.
\<close>

theorem role_file_then_launch:
  assumes "getProfile (mSession s) \<noteq> []"
  shows "emitted (role_launch cfg ev fix_type roleFile (getProfile (mSession s)) s) =
       emitted s @ [if roleFileOpens ev then FileCreate roleFile else FileOpenFailed roleFile,
         ProcStart
           (if SCAP_WORKBENCH_LOCAL_NICE_FOUND cfg then SCAP_WORKBENCH_LOCAL_NICE_PATH cfg
            else getPkexecOscapPath cfg (environ ev))
           ((if SCAP_WORKBENCH_LOCAL_NICE_FOUND cfg
             then [''-n'', number (SCAP_WORKBENCH_LOCAL_OSCAP_NICENESS cfg),
                   getPkexecOscapPath cfg (environ ev)]
             else [])
            @ [''xccdf'', ''generate'', ''fix'', ''--fix-type'', fix_type, ''--output'', roleFile,
               ''--result-id'', getProfile (mSession s), mArfFile (mLocalSession s)])
           (workingDirPath ev),
         InfoMessage ''Processing...'']
     \<and> filesAfter (emitted (role_launch cfg ev fix_type roleFile (getProfile (mSession s)) s))
           fs
         = (if roleFileOpens ev then (filesAfter (emitted s) fs)(roleFile \<mapsto> [])
            else filesAfter (emitted s) fs)
     \<and> ((\<forall>j<n. \<not> waitForFinished ev j) \<and> waitForFinished ev n \<longrightarrow>
          (\<exists>s'. createRemediationRoleAfterEvaluate cfg ev fix_type roleFile s = Some s'
             \<and> emitted s' =
                 emitted (role_launch cfg ev fix_type roleFile (getProfile (mSession s)) s)
                 @ replicate n WatchStdErr
                 @ (if exitCode ev = 1
                    then [WatchStdErr,
                      ErrorMessage
                        (''There was an error in course of remediation role generation! ''
                         @ ''Exit code of the 'oscap' process was 1.'')]
                    else [])))"
proof (intro conjI impI)
  show "emitted (role_launch cfg ev fix_type roleFile (getProfile (mSession s)) s) =
       emitted s @ [if roleFileOpens ev then FileCreate roleFile else FileOpenFailed roleFile,
         ProcStart
           (if SCAP_WORKBENCH_LOCAL_NICE_FOUND cfg then SCAP_WORKBENCH_LOCAL_NICE_PATH cfg
            else getPkexecOscapPath cfg (environ ev))
           ((if SCAP_WORKBENCH_LOCAL_NICE_FOUND cfg
             then [''-n'', number (SCAP_WORKBENCH_LOCAL_OSCAP_NICENESS cfg),
                   getPkexecOscapPath cfg (environ ev)]
             else [])
            @ [''xccdf'', ''generate'', ''fix'', ''--fix-type'', fix_type, ''--output'', roleFile,
               ''--result-id'', getProfile (mSession s), mArfFile (mLocalSession s)])
           (workingDirPath ev),
         InfoMessage ''Processing...'']"
    by (simp add: role_launch_eq getOscapProgram_def Let_def)
  show "filesAfter (emitted (role_launch cfg ev fix_type roleFile (getProfile (mSession s)) s))
           fs
         = (if roleFileOpens ev then (filesAfter (emitted s) fs)(roleFile \<mapsto> [])
            else filesAfter (emitted s) fs)"
    by (simp add: role_launch_eq)
next
  assume "(\<forall>j<n. \<not> waitForFinished ev j) \<and> waitForFinished ev n"
  then have "finishesAt ev 0 n" by (simp add: finishesAt_first)
  from role_run [OF assms this, of cfg fix_type roleFile]
  show "\<exists>s'. createRemediationRoleAfterEvaluate cfg ev fix_type roleFile s = Some s'
             \<and> emitted s' =
                 emitted (role_launch cfg ev fix_type roleFile (getProfile (mSession s)) s)
                 @ replicate n WatchStdErr
                 @ (if exitCode ev = 1
                    then [WatchStdErr,
                      ErrorMessage
                        (''There was an error in course of remediation role generation! ''
                         @ ''Exit code of the 'oscap' process was 1.'')]
                    else [])"
    by (simp add: role_launch_eq)
qed

theorem role_file_then_launch_witness:
  "getProfile (mSession demo_scanner) \<noteq> [] \<and> roleFileOpens demo_env
   \<and> \<not> waitForFinished demo_env 0 \<and> \<not> waitForFinished demo_env 1 \<and> waitForFinished demo_env 2
   \<and> filesAfter (emitted (role_launch demo_cfg demo_env ''bash'' ''/home/user/role.sh''
         (getProfile (mSession demo_scanner)) demo_scanner)) Map.empty ''/home/user/role.sh''
       = Some []
   \<and> (\<exists>s'. createRemediationRoleAfterEvaluate demo_cfg demo_env ''bash'' ''/home/user/role.sh''
              demo_scanner = Some s'
        \<and> emitted s' =
            [FileCreate ''/home/user/role.sh'',
             ProcStart ''/usr/bin/nice''
               [''-n'', ''10'', ''/usr/libexec/scap-workbench-pkexec-oscap.sh'',
                ''xccdf'', ''generate'', ''fix'', ''--fix-type'', ''bash'',
                ''--output'', ''/home/user/role.sh'',
                ''--result-id'', ''xccdf_org_profile_1'', ''/tmp/qt_temp.arf'']
               ''/tmp/workdir'',
             InfoMessage ''Processing...'', WatchStdErr, WatchStdErr])"
proof -
  have p: "getProfile (mSession demo_scanner) \<noteq> []"
    by (simp add: demo_scanner_def demo_session_def)
  have w: "(\<forall>j<2. \<not> waitForFinished demo_env j) \<and> waitForFinished demo_env 2"
    by (simp add: demo_env_def)
  have n: "number 10 = ''10''" by (simp add: number_def digits.simps)
  have r: "replicate 2 WatchStdErr = [WatchStdErr, WatchStdErr]"
    by (simp add: numeral_2_eq_2)
  from role_file_then_launch [OF p, of demo_cfg demo_env "''bash''" "''/home/user/role.sh''"
      Map.empty 2] w
  show ?thesis
    unfolding r
    by (auto simp add: demo_scanner_def demo_session_def demo_env_def demo_cfg_def
        getPkexecOscapPath_def qgetenv_def n)
qed

text \<open>
  The claim as stated fails: the role file cannot be opened for writing, no file is
  created, and the tool is started all the same.
\<close>

theorem role_file_not_created:
  "getProfile (mSession demo_scanner) \<noteq> []
   \<and> \<not> roleFileOpens (demo_env\<lparr>roleFileOpens := False\<rparr>)
   \<and> filesAfter (emitted (role_launch demo_cfg (demo_env\<lparr>roleFileOpens := False\<rparr>) ''bash''
         ''/root/role.sh'' (getProfile (mSession demo_scanner)) demo_scanner))
       Map.empty ''/root/role.sh'' = None
   \<and> createRemediationRoleAfterEvaluate demo_cfg (demo_env\<lparr>roleFileOpens := False\<rparr>) ''bash''
         ''/root/role.sh'' demo_scanner
       = Some (demo_scanner\<lparr>emitted :=
           [FileOpenFailed ''/root/role.sh'',
            ProcStart ''/usr/bin/nice''
              [''-n'', ''10'', ''/usr/libexec/scap-workbench-pkexec-oscap.sh'',
               ''xccdf'', ''generate'', ''fix'', ''--fix-type'', ''bash'',
               ''--output'', ''/root/role.sh'',
               ''--result-id'', ''xccdf_org_profile_1'', ''/tmp/qt_temp.arf'']
              ''/tmp/workdir'',
            InfoMessage ''Processing...'', WatchStdErr, WatchStdErr]\<rparr>)"
proof -
  let ?e = "demo_env\<lparr>roleFileOpens := False\<rparr>"
  have p: "getProfile (mSession demo_scanner) \<noteq> []"
    by (simp add: demo_scanner_def demo_session_def)
  have f: "finishesAt ?e 0 2"
    by (simp add: finishesAt_first demo_env_def)
  have n: "number 10 = ''10''" by (simp add: number_def digits.simps)
  have r: "replicate 2 WatchStdErr = [WatchStdErr, WatchStdErr]"
    by (simp add: numeral_2_eq_2)
  have "filesAfter (emitted (role_launch demo_cfg ?e ''bash'' ''/root/role.sh''
          (getProfile (mSession demo_scanner)) demo_scanner)) Map.empty ''/root/role.sh'' = None"
    by (simp add: role_launch_eq demo_scanner_def)
  moreover
  from role_run [OF p f, of demo_cfg "''bash''" "''/root/role.sh''"]
  have "createRemediationRoleAfterEvaluate demo_cfg ?e ''bash'' ''/root/role.sh'' demo_scanner
       = Some (demo_scanner\<lparr>emitted :=
           [FileOpenFailed ''/root/role.sh'',
            ProcStart ''/usr/bin/nice''
              [''-n'', ''10'', ''/usr/libexec/scap-workbench-pkexec-oscap.sh'',
               ''xccdf'', ''generate'', ''fix'', ''--fix-type'', ''bash'',
               ''--output'', ''/root/role.sh'',
               ''--result-id'', ''xccdf_org_profile_1'', ''/tmp/qt_temp.arf'']
              ''/tmp/workdir'',
            InfoMessage ''Processing...'', WatchStdErr, WatchStdErr]\<rparr>)"
    unfolding r
    by (simp add: demo_scanner_def demo_session_def demo_env_def demo_cfg_def
        getOscapProgram_def getPkexecOscapPath_def qgetenv_def Let_def n)
  ultimately show ?thesis using p by simp
qed

text \<open>
  C10. Whenever the call returns, the scanner is as it was apart from what it has
  emitted: the cancellation flag and the result, report and archive buffers are
  unchanged, and among the emitted events there is no completion signal, no kill and no
  file read. It returns when the profile identifier is empty or some wait reports the
  process finished.
\<close>

theorem role_generation_frame:
  "(createRemediationRoleAfterEvaluate cfg ev fix_type roleFile s = Some s' \<longrightarrow>
       s' = s\<lparr>emitted := emitted s'\<rparr>
     \<and> mCancelRequested s' = mCancelRequested s
     \<and> mResults s' = mResults s \<and> mReport s' = mReport s \<and> mARF s' = mARF s
     \<and> completions (emitted s') = completions (emitted s)
     \<and> kills (emitted s') = kills (emitted s)
     \<and> fileReads (emitted s') = fileReads (emitted s))
   \<and> (getProfile (mSession s) = [] \<or> waitForFinished ev n \<longrightarrow>
        createRemediationRoleAfterEvaluate cfg ev fix_type roleFile s \<noteq> None)"
proof (rule conjI; rule impI)
  assume "createRemediationRoleAfterEvaluate cfg ev fix_type roleFile s = Some s'"
  from role_returned [OF this] obtain evs where
    "s' = s\<lparr>emitted := emitted s @ evs\<rparr>" "completions evs = []" "kills evs = 0"
    "fileReads evs = []"
    by (elim exE conjE)
  then show "s' = s\<lparr>emitted := emitted s'\<rparr>
     \<and> mCancelRequested s' = mCancelRequested s
     \<and> mResults s' = mResults s \<and> mReport s' = mReport s \<and> mARF s' = mARF s
     \<and> completions (emitted s') = completions (emitted s)
     \<and> kills (emitted s') = kills (emitted s)
     \<and> fileReads (emitted s') = fileReads (emitted s)"
    by simp
next
  assume a: "getProfile (mSession s) = [] \<or> waitForFinished ev n"
  show "createRemediationRoleAfterEvaluate cfg ev fix_type roleFile s \<noteq> None"
  proof (cases "getProfile (mSession s) = []")
    case True
    then show ?thesis by (simp add: createRemediationRoleAfterEvaluate_def)
  next
    case False
    with a have "waitForFinished ev (0 + n)" by simp
    from finishesAt_exists [OF this] obtain k where "finishesAt ev 0 k" ..
    from role_run [OF False this, of cfg fix_type roleFile] show ?thesis by simp
  qed
qed

theorem role_generation_frame_witness:
  "waitForFinished (demo_env\<lparr>exitCode := 1\<rparr>) 2
   \<and> (\<exists>s'. createRemediationRoleAfterEvaluate demo_cfg (demo_env\<lparr>exitCode := 1\<rparr>) ''bash''
              ''/home/user/role.sh''
              (demo_scanner\<lparr>mResults := ''result'', mReport := ''report'', mARF := ''arf'',
                 emitted := [Completion False]\<rparr>) = Some s'
        \<and> \<not> mCancelRequested s'
        \<and> mResults s' = ''result'' \<and> mReport s' = ''report'' \<and> mARF s' = ''arf''
        \<and> completions (emitted s') = [False])"
proof -
  let ?e = "demo_env\<lparr>exitCode := 1\<rparr>"
  let ?s = "demo_scanner\<lparr>mResults := ''result'', mReport := ''report'', mARF := ''arf'',
                 emitted := [Completion False]\<rparr>"
  have w: "waitForFinished ?e 2" by (simp add: demo_env_def)
  have f: "\<And>s'. (createRemediationRoleAfterEvaluate demo_cfg ?e ''bash'' ''/home/user/role.sh'' ?s
                = Some s' \<longrightarrow>
       s' = ?s\<lparr>emitted := emitted s'\<rparr>
     \<and> mCancelRequested s' = mCancelRequested ?s
     \<and> mResults s' = mResults ?s \<and> mReport s' = mReport ?s \<and> mARF s' = mARF ?s
     \<and> completions (emitted s') = completions (emitted ?s)
     \<and> kills (emitted s') = kills (emitted ?s)
     \<and> fileReads (emitted s') = fileReads (emitted ?s))
   \<and> (getProfile (mSession ?s) = [] \<or> waitForFinished ?e 2 \<longrightarrow>
        createRemediationRoleAfterEvaluate demo_cfg ?e ''bash'' ''/home/user/role.sh'' ?s \<noteq> None)"
    by (rule role_generation_frame)
  from f w obtain r where
    r: "createRemediationRoleAfterEvaluate demo_cfg ?e ''bash'' ''/home/user/role.sh'' ?s = Some r"
    by blast
  with f [of r] have "\<not> mCancelRequested r
        \<and> mResults r = ''result'' \<and> mReport r = ''report'' \<and> mARF r = ''arf''
        \<and> completions (emitted r) = [False]"
    by (simp add: demo_scanner_def)
  with r w show ?thesis by blast
qed


subsection \<open>Program resolution\<close>

text \<open>
  C5, as amended. The elevated-invocation path is the value of the environment variable
  \<open>SCAP_WORKBENCH_PKEXEC_OSCAP_PATH\<close> when that variable is set to a value that is not
  empty, and the configured default otherwise (also when the variable is set to the empty
  string). With the niceness wrapper the arguments become \<open>-n\<close>, the niceness level in
  decimal, that path, then the original arguments, and the program is the wrapper's path;
  without it the arguments are untouched and the program is that path.
\<close>

theorem getOscapProgram_resolves:
  "getOscapProgram cfg e args =
     (let resolved =
        (case e ''SCAP_WORKBENCH_PKEXEC_OSCAP_PATH'' of
           None \<Rightarrow> SCAP_WORKBENCH_LOCAL_PKEXEC_OSCAP_PATH cfg
         | Some v \<Rightarrow> if v = [] then SCAP_WORKBENCH_LOCAL_PKEXEC_OSCAP_PATH cfg else v)
      in if SCAP_WORKBENCH_LOCAL_NICE_FOUND cfg
         then (SCAP_WORKBENCH_LOCAL_NICE_PATH cfg,
               [''-n'', number (SCAP_WORKBENCH_LOCAL_OSCAP_NICENESS cfg), resolved] @ args)
         else (resolved, args))"
  by (simp add: getOscapProgram_def getPkexecOscapPath_def qgetenv_def Let_def
      split: option.split)

theorem getOscapProgram_resolves_witness:
  "getOscapProgram demo_cfg [''SCAP_WORKBENCH_PKEXEC_OSCAP_PATH'' \<mapsto> ''/opt/pkexec-oscap'']
       [''xccdf'', ''eval'']
     = (''/usr/bin/nice'', [''-n'', ''10'', ''/opt/pkexec-oscap'', ''xccdf'', ''eval''])
   \<and> getOscapProgram (demo_cfg\<lparr>SCAP_WORKBENCH_LOCAL_NICE_FOUND := False\<rparr>) Map.empty
       [''xccdf'', ''eval'']
     = (''/usr/libexec/scap-workbench-pkexec-oscap.sh'', [''xccdf'', ''eval''])"
proof -
  have n: "number 10 = ''10''" by (simp add: number_def digits.simps)
  show ?thesis
    using getOscapProgram_resolves
      [of demo_cfg "[''SCAP_WORKBENCH_PKEXEC_OSCAP_PATH'' \<mapsto> ''/opt/pkexec-oscap'']"
          "[''xccdf'', ''eval'']"]
      getOscapProgram_resolves
      [of "demo_cfg\<lparr>SCAP_WORKBENCH_LOCAL_NICE_FOUND := False\<rparr>" Map.empty
          "[''xccdf'', ''eval'']"]
    by (simp add: demo_cfg_def n)
qed

text \<open>
  The claim as stated fails: the variable is set, to the empty string, and the path
  used is the configured default, not the value of the variable.
\<close>

theorem empty_override_ignored:
  "[''SCAP_WORKBENCH_PKEXEC_OSCAP_PATH'' \<mapsto> []] ''SCAP_WORKBENCH_PKEXEC_OSCAP_PATH'' = Some []
   \<and> getOscapProgram (demo_cfg\<lparr>SCAP_WORKBENCH_LOCAL_NICE_FOUND := False\<rparr>)
       [''SCAP_WORKBENCH_PKEXEC_OSCAP_PATH'' \<mapsto> []] [''xccdf'', ''eval'']
     = (''/usr/libexec/scap-workbench-pkexec-oscap.sh'', [''xccdf'', ''eval''])
   \<and> getOscapProgram demo_cfg
       [''SCAP_WORKBENCH_PKEXEC_OSCAP_PATH'' \<mapsto> []] [''xccdf'', ''eval'']
     = (''/usr/bin/nice'',
        [''-n'', ''10'', ''/usr/libexec/scap-workbench-pkexec-oscap.sh'', ''xccdf'', ''eval''])"
proof -
  have n: "number 10 = ''10''" by (simp add: number_def digits.simps)
  show ?thesis
    by (simp add: getOscapProgram_def getPkexecOscapPath_def qgetenv_def Let_def demo_cfg_def n)
qed

subsection \<open>The command line shown for a dry run\<close>

text \<open>
  C6, as amended. The preview is the program name \<open>oscap\<close> followed by what the builder
  of the run's mode returns on the placeholder output paths with capability gating
  disabled, less the first occurrence of \<open>--progress\<close>. In offline remediation these are
  the arguments of a real run with only the paths and the gating changed. In the two
  evaluation modes the tailoring argument differs as well: the preview passes the
  session's user tailoring path, where a real run passes the exported tailoring path, or
  the empty string when the session has no tailoring; the two agree when those values do.
  The preview starts no process. The last part says which arguments a real run starts
  its process on.
\<close>

theorem preview_matches_run:
  "fst (getCommandLineArgs bld ev s) =
     removeOne ''--progress''
       (''oscap'' # evaluate_args bld ev
          (s\<lparr>mSession := (mSession s)\<lparr>hasTailoring := True,
                getTailoringFilePath := getUserTailoringFilePath (mSession s)\<rparr>\<rparr>)
          ''/tmp/xccdf-results.xml'' ''/tmp/report.html'' ''/tmp/arf.xml'' True)
   \<and> (mScannerMode s = SM_OFFLINE_REMEDIATION
        \<or> (if hasTailoring (mSession s) then getTailoringFilePath (mSession s) else [])
            = getUserTailoringFilePath (mSession s)
       \<longrightarrow> fst (getCommandLineArgs bld ev s) = preview_as_specified bld ev s)
   \<and> spawns (snd (getCommandLineArgs bld ev s)) = []
   \<and> spawns (emitted (evaluate_launch cfg bld ev s)) = spawns (emitted s)
        @ [getOscapProgram cfg (environ ev)
             (evaluate_args bld ev s (mResultFile (mLocalSession s))
                (mReportFile (mLocalSession s)) (mArfFile (mLocalSession s)) False)]"
proof (intro conjI impI)
  show "fst (getCommandLineArgs bld ev s) =
     removeOne ''--progress''
       (''oscap'' # evaluate_args bld ev
          (s\<lparr>mSession := (mSession s)\<lparr>hasTailoring := True,
                getTailoringFilePath := getUserTailoringFilePath (mSession s)\<rparr>\<rparr>)
          ''/tmp/xccdf-results.xml'' ''/tmp/report.html'' ''/tmp/arf.xml'' True)"
    by (simp add: getCommandLineArgs_def evaluate_args_def Let_def)
  show "spawns (snd (getCommandLineArgs bld ev s)) = []"
    by (simp add: getCommandLineArgs_def Let_def)
  show "spawns (emitted (evaluate_launch cfg bld ev s)) = spawns (emitted s)
        @ [getOscapProgram cfg (environ ev)
             (evaluate_args bld ev s (mResultFile (mLocalSession s))
                (mReportFile (mLocalSession s)) (mArfFile (mLocalSession s)) False)]"
    by (rule evaluate_launch_spawns)
next
  assume "mScannerMode s = SM_OFFLINE_REMEDIATION
        \<or> (if hasTailoring (mSession s) then getTailoringFilePath (mSession s) else [])
            = getUserTailoringFilePath (mSession s)"
  then show "fst (getCommandLineArgs bld ev s) = preview_as_specified bld ev s"
    by (auto simp add: getCommandLineArgs_def preview_as_specified_def evaluate_args_def Let_def)
qed

theorem preview_matches_run_witness:
  "mScannerMode (demo_scanner\<lparr>mScannerMode := SM_OFFLINE_REMEDIATION\<rparr>) = SM_OFFLINE_REMEDIATION
   \<and> fst (getCommandLineArgs demo_builder demo_env
            (demo_scanner\<lparr>mScannerMode := SM_OFFLINE_REMEDIATION\<rparr>))
       = preview_as_specified demo_builder demo_env
            (demo_scanner\<lparr>mScannerMode := SM_OFFLINE_REMEDIATION\<rparr>)
   \<and> preview_as_specified demo_builder demo_env
            (demo_scanner\<lparr>mScannerMode := SM_OFFLINE_REMEDIATION\<rparr>)
       = [''oscap'', ''xccdf'', ''remediate'', ''--results'', ''/tmp/xccdf-results.xml'',
          ''--results-arf'', ''/tmp/arf.xml'', ''--report'', ''/tmp/report.html'',
          ''/tmp/qt_temp.input'']"
  using preview_matches_run
    [of demo_builder demo_env "demo_scanner\<lparr>mScannerMode := SM_OFFLINE_REMEDIATION\<rparr>" demo_cfg]
  by (simp add: preview_as_specified_def evaluate_args_def removeOne_def demo_builder_def
      demo_env_def demo_scanner_def)

text \<open>
  The claim as stated fails: in a plain scan of a session whose exported tailoring file
  and user tailoring file differ, the preview names the user's file and the arguments of
  the real run, moved to the placeholder paths, name the exported one.
\<close>

theorem preview_names_user_tailoring:
  "fst (getCommandLineArgs demo_builder demo_env demo_scanner)
     = [''oscap'', ''xccdf'', ''eval'', ''--tailoring-file'', ''/home/user/tailoring.xml'',
        ''--results'', ''/tmp/xccdf-results.xml'', ''--results-arf'', ''/tmp/arf.xml'',
        ''--report'', ''/tmp/report.html'', ''/scan/doc.xml'']
   \<and> preview_as_specified demo_builder demo_env demo_scanner
     = [''oscap'', ''xccdf'', ''eval'', ''--tailoring-file'', ''/tmp/tailoring-export.xml'',
        ''--results'', ''/tmp/xccdf-results.xml'', ''--results-arf'', ''/tmp/arf.xml'',
        ''--report'', ''/tmp/report.html'', ''/scan/doc.xml'']
   \<and> fst (getCommandLineArgs demo_builder demo_env demo_scanner)
     \<noteq> preview_as_specified demo_builder demo_env demo_scanner"
  by (simp add: getCommandLineArgs_def preview_as_specified_def evaluate_args_def removeOne_def
      demo_builder_def demo_env_def demo_scanner_def demo_session_def Let_def)


end
